theory Spec2Isabelle
  imports Complex_Main
begin

section \<open>Real-time correlative scan matcher (2D): the data model\<close>

text \<open>
  The embedding follows \<^verbatim>\<open>real_time_correlative_scan_matcher_2d.cc\<close>.

  Numbers. The C++ \<^verbatim>\<open>int\<close> is modelled by \<^typ>\<open>int\<close>: signed overflow is undefined
  behaviour in C++, so there is no wrap-around to write out. A C++ \<^verbatim>\<open>float\<close> is a real
  number, and every operation of the source on floats (the sums, products, differences and
  quotients of the two scorers, the conversion of the scan size, the store of the final
  score) rounds its exact result with \<open>float32\<close> below: to the nearest binary32 value, ties
  to even. Infinities and NaN are not values of the model, so a result beyond the binary32
  range is outside of it; the one NaN the source can reach on data within the range (the
  quotient \<^verbatim>\<open>0.f / 0.f\<close> of the probability grid scorer for an empty scan) is a branch of
  its own. A C++ \<^verbatim>\<open>double\<close> (the offsets and the orientation of a candidate, the weights,
  the penalty, the poses) is a real number with exact operations: the rounding of double
  arithmetic is not modelled. The quotient by the maximum correspondence cost of a TSDF
  stands for the source only for a cost other than zero, and the theorems that depend on
  it say so.

  Failures. Every \<^verbatim>\<open>CHECK\<close> of the source, the exception of \<^verbatim>\<open>reserve\<close>, and the
  reads the C++ standard leaves undefined (an index past the end of a vector, the
  dereference of \<^verbatim>\<open>end()\<close>) are values of \<open>failure\<close>; a function that can fail
  returns \<open>failure + 'a\<close>, with \<open>Inl\<close> for the failure.
\<close>

datatype failure =
    CHECK_pose_estimate_not_null
  | CHECK_GE_candidate_score
  | CHECK_GT_candidate_score
  | CHECK_EQ_num_candidates
  | length_error
  | index_out_of_range
  | dereference_of_end

text \<open>
  Rounding to the nearest integer, ties to the even one.
\<close>

definition round_to_even :: "real \<Rightarrow> int" where
  "round_to_even v =
     (let f = \<lfloor>v\<rfloor>; r = v - of_int f
      in if r < 1 / 2 then f else if 1 / 2 < r then f + 1 else if even f then f else f + 1)"

text \<open>
  The binary32 exponent of a real number other than zero: the exponent of its binade, and
  \<open>-126\<close> for the subnormal numbers.
\<close>

definition float32_exponent :: "real \<Rightarrow> int" where
  "float32_exponent v = max (- 126) \<lfloor>log 2 \<bar>v\<bar>\<rfloor>"

text \<open>
  Rounding to binary32, as every C++ operation on floats does with its exact result: a
  significand of 24 bits, so a multiple of \<open>2 powi (exponent - 23)\<close>, the nearest one,
  ties to even.
\<close>

definition float32 :: "real \<Rightarrow> real" where
  "float32 v =
     (if v = 0 then 0
      else of_int (round_to_even (v / 2 powi (float32_exponent v - 23)))
           * 2 powi (float32_exponent v - 23))"

text \<open>The values a float can hold.\<close>

definition is_float32 :: "real \<Rightarrow> bool" where
  "is_float32 v \<longleftrightarrow> float32 v = v"

type_synonym Array2i = "int \<times> int"

type_synonym DiscreteScan2D = "Array2i list"

text \<open>
  The tag of a grid. The switch of \<^verbatim>\<open>ScoreCandidates\<close> names \<open>PROBABILITY_GRID\<close> and
  \<open>TSDF\<close>; \<open>UNHANDLED_GRID_TYPE\<close> stands for any other value of the enumeration.
\<close>

datatype GridType = PROBABILITY_GRID | TSDF | UNHANDLED_GRID_TYPE

text \<open>
  A grid, as the matcher reads it: its limits (of a type \<open>'l\<close> this file does not look
  into), its tag, and the queries of the two classes the source casts it to.
\<close>

record 'l Grid2D =
  limits :: 'l
  GetGridType :: GridType
  GetProbability :: "Array2i \<Rightarrow> real"
  GetTSDAndWeight :: "Array2i \<Rightarrow> real \<times> real"
  GetMaxCorrespondenceCost :: real

record LinearBounds =
  min_x :: int
  max_x :: int
  min_y :: int
  max_y :: int

text \<open>
  Modelled from the spec: the declaration of \<^verbatim>\<open>SearchParameters\<close> is not in the source
  file. The source reads \<open>num_scans\<close> and \<open>linear_bounds\<close>. The other three fields are what
  the constructor of a candidate needs: \<open>resolution\<close> is the grid resolution, and the
  rotation assigned to a scan index is \<open>(scan_index - center_index) * angular_step\<close>
  (sections 3, 4.2 and 4.4 of the spec).
\<close>

record SearchParameters =
  num_scans :: int
  linear_bounds :: "LinearBounds list"
  resolution :: real
  center_index :: int
  angular_step :: real

record Candidate2D =
  scan_index :: int
  x_index_offset :: int
  y_index_offset :: int
  x :: real
  y :: real
  orientation :: real
  score :: real

record RealTimeCorrelativeScanMatcherOptions =
  linear_search_window :: real
  angular_search_window :: real
  translation_delta_cost_weight :: real
  rotation_delta_cost_weight :: real

text \<open>
  \<^verbatim>\<open>Eigen::Rotation2Dd\<close> holds an angle, and the product of two rotations is the rotation by
  the sum of the angles.
\<close>

datatype Rotation2D = Rotation2D (angle: real)

fun compose :: "Rotation2D \<Rightarrow> Rotation2D \<Rightarrow> Rotation2D" where
  "compose (Rotation2D a) (Rotation2D b) = Rotation2D (a + b)"

record Rigid2d =
  translation :: "real \<times> real"
  rotation :: Rotation2D

section \<open>Scoring one candidate\<close>

text \<open>
  The value of one scan point in the TSDF scorer, from the distance read at its cell: a
  float difference and a float quotient. With a maximum correspondence cost of zero the
  source divides by zero here (the quotient is NaN or infinite); the model stands for the
  source only for a cost other than zero.
\<close>

definition normalized_tsd_score :: "'l Grid2D \<Rightarrow> real \<Rightarrow> real" where
  "normalized_tsd_score tsdf tsd =
     float32 (float32 (GetMaxCorrespondenceCost tsdf - \<bar>tsd\<bar>) / GetMaxCorrespondenceCost tsdf)"

text \<open>
  The body of the loop of the TSDF scorer: one scan point. The product and both sums are
  float operations.
\<close>

definition tsdf_step :: "'l Grid2D \<Rightarrow> int \<Rightarrow> int \<Rightarrow> real \<times> real \<Rightarrow> Array2i \<Rightarrow> real \<times> real" where
  "tsdf_step tsdf x_offset y_offset acc xy_index =
     (let candidate_score = fst acc;
          summed_weight = snd acc;
          proposed_xy_index = (fst xy_index + x_offset, snd xy_index + y_offset);
          tsd_and_weight = GetTSDAndWeight tsdf proposed_xy_index;
          weight = snd tsd_and_weight
      in (float32 (candidate_score
                   + float32 (normalized_tsd_score tsdf (fst tsd_and_weight) * weight)),
          float32 (summed_weight + weight)))"

definition ComputeCandidateScore_TSDF2D ::
  "'l Grid2D \<Rightarrow> DiscreteScan2D \<Rightarrow> int \<Rightarrow> int \<Rightarrow> failure + real" where
  "ComputeCandidateScore_TSDF2D tsdf discrete_scan x_offset y_offset =
     (let acc = foldl (tsdf_step tsdf x_offset y_offset) (0, 0) discrete_scan;
          candidate_score = fst acc;
          summed_weight = snd acc
      in if summed_weight = 0 then Inr 0
         else let candidate_score = float32 (candidate_score / summed_weight)
              in if candidate_score \<ge> 0 then Inr candidate_score
                 else Inl CHECK_GE_candidate_score)"

text \<open>
  The body of the loop of the probability grid scorer: one scan point, added to the running
  sum in float.
\<close>

definition probability_step :: "'l Grid2D \<Rightarrow> int \<Rightarrow> int \<Rightarrow> real \<Rightarrow> Array2i \<Rightarrow> real" where
  "probability_step probability_grid x_offset y_offset candidate_score xy_index =
     (let proposed_xy_index = (fst xy_index + x_offset, snd xy_index + y_offset);
          probability = GetProbability probability_grid proposed_xy_index
      in float32 (candidate_score + probability))"

text \<open>
  The scan size is converted to float and the running sum divided by it in float. For an
  empty scan the source divides \<^verbatim>\<open>0.f\<close> by \<^verbatim>\<open>0.f\<close>; the quotient is NaN, every comparison
  with NaN is false, and \<^verbatim>\<open>CHECK_GT\<close> fails. That is the first branch.
\<close>

definition ComputeCandidateScore_ProbabilityGrid ::
  "'l Grid2D \<Rightarrow> DiscreteScan2D \<Rightarrow> int \<Rightarrow> int \<Rightarrow> failure + real" where
  "ComputeCandidateScore_ProbabilityGrid probability_grid discrete_scan x_offset y_offset =
     (let candidate_score = foldl (probability_step probability_grid x_offset y_offset) 0 discrete_scan
      in if length discrete_scan = 0 then Inl CHECK_GT_candidate_score
         else let candidate_score = float32 (candidate_score / float32 (real (length discrete_scan)))
              in if candidate_score > 0 then Inr candidate_score
                 else Inl CHECK_GT_candidate_score)"

section \<open>Enumerating the candidates\<close>

text \<open>
  Modelled from the spec: the constructor of \<^verbatim>\<open>Candidate2D\<close> is not in the source file.
  Section 4.4: \<open>x\<close> and \<open>y\<close> are the offsets times the resolution, the orientation is the
  rotation assigned to the scan index; section 3: the score of a fresh candidate is unset,
  and \<open>0\<close> stands for it here.
\<close>

definition Candidate2D_init :: "int \<Rightarrow> int \<Rightarrow> int \<Rightarrow> SearchParameters \<Rightarrow> Candidate2D" where
  "Candidate2D_init init_scan_index init_x_index_offset init_y_index_offset search_parameters =
     \<lparr> scan_index = init_scan_index,
       x_index_offset = init_x_index_offset,
       y_index_offset = init_y_index_offset,
       x = real_of_int init_x_index_offset * resolution search_parameters,
       y = real_of_int init_y_index_offset * resolution search_parameters,
       orientation =
         real_of_int (init_scan_index - center_index search_parameters) * angular_step search_parameters,
       score = 0 \<rparr>"

text \<open>
  \<^verbatim>\<open>linear_bounds[scan_index]\<close>: an index outside the vector is undefined behaviour in C++,
  a failure here.
\<close>

definition bounds_at :: "SearchParameters \<Rightarrow> int \<Rightarrow> failure + LinearBounds" where
  "bounds_at search_parameters i =
     (if 0 \<le> i \<and> i < int (length (linear_bounds search_parameters))
      then Inr (linear_bounds search_parameters ! nat i)
      else Inl index_out_of_range)"

text \<open>
  The first loop: the number of candidates, summed over the scans. The loop stops when
  \<open>scan_index = num_scans\<close>, as in the source, or at an index outside \<open>linear_bounds\<close>.
\<close>

function count_loop :: "SearchParameters \<Rightarrow> int \<Rightarrow> int \<Rightarrow> failure + int" where
  "count_loop search_parameters i num_candidates =
     (if i = num_scans search_parameters then Inr num_candidates
      else case bounds_at search_parameters i of
             Inl e \<Rightarrow> Inl e
           | Inr b \<Rightarrow>
               (let num_linear_x_candidates = max_x b - min_x b + 1;
                    num_linear_y_candidates = max_y b - min_y b + 1
                in count_loop search_parameters (i + 1)
                     (num_candidates + num_linear_x_candidates * num_linear_y_candidates)))"
  by pat_completeness auto
termination
  by (relation "measure (\<lambda>(sp, i, n). nat (int (length (linear_bounds sp)) - i))")
     (auto simp: bounds_at_def split: if_splits)

text \<open>The innermost loop: \<open>y_index_offset\<close> up to \<open>max_y\<close>, one \<^verbatim>\<open>emplace_back\<close> each.\<close>

function y_loop ::
  "SearchParameters \<Rightarrow> int \<Rightarrow> int \<Rightarrow> int \<Rightarrow> int \<Rightarrow> Candidate2D list \<Rightarrow> Candidate2D list" where
  "y_loop search_parameters i xo yo y_last candidates =
     (if yo \<le> y_last
      then y_loop search_parameters i xo (yo + 1) y_last
             (candidates @ [Candidate2D_init i xo yo search_parameters])
      else candidates)"
  by pat_completeness auto
termination
  by (relation "measure (\<lambda>(sp, i, xo, yo, y_last, cs). nat (y_last + 1 - yo))") auto

text \<open>The middle loop: \<open>x_index_offset\<close> up to \<open>max_x\<close>.\<close>

function x_loop ::
  "SearchParameters \<Rightarrow> int \<Rightarrow> LinearBounds \<Rightarrow> int \<Rightarrow> Candidate2D list \<Rightarrow> Candidate2D list" where
  "x_loop search_parameters i b xo candidates =
     (if xo \<le> max_x b
      then x_loop search_parameters i b (xo + 1)
             (y_loop search_parameters i xo (min_y b) (max_y b) candidates)
      else candidates)"
  by pat_completeness auto
termination
  by (relation "measure (\<lambda>(sp, i, b, xo, cs). nat (max_x b + 1 - xo))") auto

text \<open>The outer loop: \<open>scan_index\<close> from its start until it equals \<open>num_scans\<close>.\<close>

function scan_loop :: "SearchParameters \<Rightarrow> int \<Rightarrow> Candidate2D list \<Rightarrow> failure + Candidate2D list" where
  "scan_loop search_parameters i candidates =
     (if i = num_scans search_parameters then Inr candidates
      else case bounds_at search_parameters i of
             Inl e \<Rightarrow> Inl e
           | Inr b \<Rightarrow>
               scan_loop search_parameters (i + 1)
                 (x_loop search_parameters i b (min_x b) candidates))"
  by pat_completeness auto
termination
  by (relation "measure (\<lambda>(sp, i, cs). nat (int (length (linear_bounds sp)) - i))")
     (auto simp: bounds_at_def split: if_splits)

text \<open>
  \<^verbatim>\<open>candidates.reserve(num_candidates)\<close> converts the count to an unsigned size: a negative
  count becomes a size above \<^verbatim>\<open>max_size()\<close> and \<^verbatim>\<open>reserve\<close> throws
  \<^verbatim>\<open>std::length_error\<close>, which nothing catches.
\<close>

definition GenerateExhaustiveSearchCandidates :: "SearchParameters \<Rightarrow> failure + Candidate2D list" where
  "GenerateExhaustiveSearchCandidates search_parameters =
     (case count_loop search_parameters 0 0 of
        Inl e \<Rightarrow> Inl e
      | Inr num_candidates \<Rightarrow>
          (if num_candidates < 0 then Inl length_error
           else (case scan_loop search_parameters 0 [] of
                   Inl e \<Rightarrow> Inl e
                 | Inr candidates \<Rightarrow>
                     (if int (length candidates) = num_candidates then Inr candidates
                      else Inl CHECK_EQ_num_candidates))))"

section \<open>Scoring all candidates\<close>

text \<open>\<^verbatim>\<open>std::hypot\<close> of the C++ library: the length of the vector \<open>(a, b)\<close>.\<close>

definition hypot :: "real \<Rightarrow> real \<Rightarrow> real" where
  "hypot a b = sqrt (a * a + b * b)"

text \<open>
  Modelled from the spec: \<^verbatim>\<open>common::Pow2\<close> is not in the source file; section 4.5: the
  square of its argument.
\<close>

definition Pow2 :: "real \<Rightarrow> real" where
  "Pow2 a = a * a"

text \<open>\<^verbatim>\<open>discrete_scans[candidate.scan_index]\<close>, with the index checked.\<close>

definition scan_at :: "DiscreteScan2D list \<Rightarrow> int \<Rightarrow> failure + DiscreteScan2D" where
  "scan_at discrete_scans i =
     (if 0 \<le> i \<and> i < int (length discrete_scans) then Inr (discrete_scans ! nat i)
      else Inl index_out_of_range)"

text \<open>
  The switch on the tag. It has no default branch: with any other tag no case is taken and
  the score of the candidate stays as it is.
\<close>

definition dispatch_score ::
  "'l Grid2D \<Rightarrow> DiscreteScan2D list \<Rightarrow> Candidate2D \<Rightarrow> failure + real" where
  "dispatch_score grid discrete_scans candidate =
     (case GetGridType grid of
        PROBABILITY_GRID \<Rightarrow>
          (case scan_at discrete_scans (scan_index candidate) of
             Inl e \<Rightarrow> Inl e
           | Inr discrete_scan \<Rightarrow>
               ComputeCandidateScore_ProbabilityGrid grid discrete_scan
                 (x_index_offset candidate) (y_index_offset candidate))
      | TSDF \<Rightarrow>
          (case scan_at discrete_scans (scan_index candidate) of
             Inl e \<Rightarrow> Inl e
           | Inr discrete_scan \<Rightarrow>
               ComputeCandidateScore_TSDF2D grid discrete_scan
                 (x_index_offset candidate) (y_index_offset candidate))
      | UNHANDLED_GRID_TYPE \<Rightarrow> Inr (score candidate))"

text \<open>
  The factor the score is multiplied by after the switch: a double, computed from doubles.
\<close>

definition penalty :: "RealTimeCorrelativeScanMatcherOptions \<Rightarrow> Candidate2D \<Rightarrow> real" where
  "penalty options candidate =
     exp (- Pow2 (hypot (x candidate) (y candidate) * translation_delta_cost_weight options
                  + \<bar>orientation candidate\<bar> * rotation_delta_cost_weight options))"

text \<open>
  The body of the loop of \<^verbatim>\<open>ScoreCandidates\<close>: one candidate. The score is a float: the
  product with the penalty is rounded when it is stored.
\<close>

definition score_candidate ::
  "RealTimeCorrelativeScanMatcherOptions \<Rightarrow> 'l Grid2D \<Rightarrow> DiscreteScan2D list \<Rightarrow> Candidate2D
     \<Rightarrow> failure + Candidate2D" where
  "score_candidate options grid discrete_scans candidate =
     (case dispatch_score grid discrete_scans candidate of
        Inl e \<Rightarrow> Inl e
      | Inr s \<Rightarrow>
          (let candidate = candidate\<lparr>score := s\<rparr>
           in Inr (candidate\<lparr>score := float32 (score candidate * penalty options candidate)\<rparr>)))"

text \<open>
  \<^verbatim>\<open>ScoreCandidates\<close> updates the candidates in place, in order; a failed check ends the
  program at that candidate.
\<close>

fun ScoreCandidates ::
  "RealTimeCorrelativeScanMatcherOptions \<Rightarrow> 'l Grid2D \<Rightarrow> DiscreteScan2D list \<Rightarrow> SearchParameters
     \<Rightarrow> Candidate2D list \<Rightarrow> failure + Candidate2D list" where
  "ScoreCandidates options grid discrete_scans search_parameters [] = Inr []"
| "ScoreCandidates options grid discrete_scans search_parameters (candidate # candidates) =
     (case score_candidate options grid discrete_scans candidate of
        Inl e \<Rightarrow> Inl e
      | Inr scored \<Rightarrow>
          (case ScoreCandidates options grid discrete_scans search_parameters candidates of
             Inl e \<Rightarrow> Inl e
           | Inr rest \<Rightarrow> Inr (scored # rest)))"

text \<open>
  The same loop with its effects written out. The state holds what the function can reach:
  its three constant arguments and the candidates, which it updates in place. The last field
  is not a variable of the program: it records, in program order, every store to a score
  field, as the index of the candidate and the value stored.
\<close>

record 'l scoring_state =
  st_grid :: "'l Grid2D"
  st_discrete_scans :: "DiscreteScan2D list"
  st_search_parameters :: SearchParameters
  st_candidates :: "Candidate2D list"
  score_stores :: "(nat \<times> real) list"

text \<open>A store to the score field of the candidate at index \<open>i\<close>.\<close>

definition store_score :: "nat \<Rightarrow> real \<Rightarrow> 'l scoring_state \<Rightarrow> 'l scoring_state" where
  "store_score i v s =
     s\<lparr> st_candidates := (st_candidates s)[i := (st_candidates s ! i)\<lparr>score := v\<rparr>],
        score_stores := score_stores s @ [(i, v)] \<rparr>"

text \<open>
  The switch, for the candidate at index \<open>i\<close>: the assignment
  \<^verbatim>\<open>candidate.score = ComputeCandidateScore(...)\<close> in its two branches, nothing for another
  tag.
\<close>

definition dispatch_store :: "nat \<Rightarrow> 'l scoring_state \<Rightarrow> failure + 'l scoring_state" where
  "dispatch_store i s =
     (let candidate = st_candidates s ! i
      in case GetGridType (st_grid s) of
           PROBABILITY_GRID \<Rightarrow>
             (case scan_at (st_discrete_scans s) (scan_index candidate) of
                Inl e \<Rightarrow> Inl e
              | Inr discrete_scan \<Rightarrow>
                  (case ComputeCandidateScore_ProbabilityGrid (st_grid s) discrete_scan
                          (x_index_offset candidate) (y_index_offset candidate) of
                     Inl e \<Rightarrow> Inl e
                   | Inr v \<Rightarrow> Inr (store_score i v s)))
         | TSDF \<Rightarrow>
             (case scan_at (st_discrete_scans s) (scan_index candidate) of
                Inl e \<Rightarrow> Inl e
              | Inr discrete_scan \<Rightarrow>
                  (case ComputeCandidateScore_TSDF2D (st_grid s) discrete_scan
                          (x_index_offset candidate) (y_index_offset candidate) of
                     Inl e \<Rightarrow> Inl e
                   | Inr v \<Rightarrow> Inr (store_score i v s)))
         | UNHANDLED_GRID_TYPE \<Rightarrow> Inr s)"

text \<open>
  The body of the loop, for the candidate at index \<open>i\<close>: the switch, then the assignment
  \<^verbatim>\<open>candidate.score *= std::exp(...)\<close>.
\<close>

definition score_step ::
  "RealTimeCorrelativeScanMatcherOptions \<Rightarrow> nat \<Rightarrow> 'l scoring_state \<Rightarrow> failure + 'l scoring_state" where
  "score_step options i s =
     (case dispatch_store i s of
        Inl e \<Rightarrow> Inl e
      | Inr s1 \<Rightarrow>
          (let candidate = st_candidates s1 ! i
           in Inr (store_score i (float32 (score candidate * penalty options candidate)) s1)))"

text \<open>The loop over the indices of the candidates.\<close>

fun score_loop ::
  "RealTimeCorrelativeScanMatcherOptions \<Rightarrow> nat list \<Rightarrow> 'l scoring_state \<Rightarrow> failure + 'l scoring_state" where
  "score_loop options [] s = Inr s"
| "score_loop options (i # indices) s =
     (case score_step options i s of
        Inl e \<Rightarrow> Inl e
      | Inr s1 \<Rightarrow> score_loop options indices s1)"

text \<open>
  \<^verbatim>\<open>ScoreCandidates\<close> as a change of the state, from a state without any store.
\<close>

definition ScoreCandidates_effects ::
  "RealTimeCorrelativeScanMatcherOptions \<Rightarrow> 'l Grid2D \<Rightarrow> DiscreteScan2D list \<Rightarrow> SearchParameters
     \<Rightarrow> Candidate2D list \<Rightarrow> failure + 'l scoring_state" where
  "ScoreCandidates_effects options grid discrete_scans search_parameters candidates =
     score_loop options [0..<length candidates]
       \<lparr> st_grid = grid, st_discrete_scans = discrete_scans,
         st_search_parameters = search_parameters, st_candidates = candidates,
         score_stores = [] \<rparr>"

section \<open>Match\<close>

text \<open>
  Modelled from the spec: \<^verbatim>\<open>operator<\<close> of \<^verbatim>\<open>Candidate2D\<close> is not in the source file;
  section 3: candidates compare by score only.
\<close>

definition Candidate2D_less :: "Candidate2D \<Rightarrow> Candidate2D \<Rightarrow> bool" where
  "Candidate2D_less a b = (score a < score b)"

text \<open>
  \<^verbatim>\<open>std::max_element\<close>: the running largest element is replaced only by a strictly greater
  one; on an empty range the result is \<^verbatim>\<open>end()\<close>, \<open>None\<close> here.
\<close>

fun max_element_from :: "Candidate2D \<Rightarrow> Candidate2D list \<Rightarrow> Candidate2D" where
  "max_element_from largest [] = largest"
| "max_element_from largest (c # cs) =
     max_element_from (if Candidate2D_less largest c then c else largest) cs"

fun max_element :: "Candidate2D list \<Rightarrow> Candidate2D option" where
  "max_element [] = None"
| "max_element (c # cs) = Some (max_element_from c cs)"

text \<open>
  What \<^verbatim>\<open>Match\<close> calls and the source file does not define: the rotation of a point
  cloud about the vertical axis, the constructor of the search parameters, the rotated
  scans, their discretisation, and the resolution of the limits of a grid. They are
  parameters of the model; \<open>'p\<close> is the type of a point cloud.
\<close>

record ('p, 'l) collaborators =
  TransformPointCloud :: "'p \<Rightarrow> real \<Rightarrow> 'p"
  SearchParameters_init :: "real \<Rightarrow> real \<Rightarrow> 'p \<Rightarrow> real \<Rightarrow> SearchParameters"
  GenerateRotatedScans :: "'p \<Rightarrow> SearchParameters \<Rightarrow> 'p list"
  DiscretizeScans :: "'l \<Rightarrow> 'p list \<Rightarrow> real \<times> real \<Rightarrow> DiscreteScan2D list"
  limits_resolution :: "'l \<Rightarrow> real"

text \<open>
  The candidates of a call, scored: everything \<^verbatim>\<open>Match\<close> does between its entry check
  and the selection.
\<close>

definition scored_candidates ::
  "('p, 'l) collaborators \<Rightarrow> RealTimeCorrelativeScanMatcherOptions \<Rightarrow> Rigid2d \<Rightarrow> 'p \<Rightarrow> 'l Grid2D
     \<Rightarrow> failure + Candidate2D list" where
  "scored_candidates ext options initial_pose_estimate point_cloud grid =
     (let initial_rotation = rotation initial_pose_estimate;
          rotated_point_cloud = TransformPointCloud ext point_cloud (angle initial_rotation);
          search_parameters =
            SearchParameters_init ext (linear_search_window options) (angular_search_window options)
              rotated_point_cloud (limits_resolution ext (limits grid));
          rotated_scans = GenerateRotatedScans ext rotated_point_cloud search_parameters;
          discrete_scans =
            DiscretizeScans ext (limits grid) rotated_scans (translation initial_pose_estimate)
      in case GenerateExhaustiveSearchCandidates search_parameters of
           Inl e \<Rightarrow> Inl e
         | Inr candidates \<Rightarrow>
             ScoreCandidates options grid discrete_scans search_parameters candidates)"

text \<open>
  \<^verbatim>\<open>Match\<close>. The pointer \<open>pose_estimate\<close> is \<open>None\<close> when null and \<open>Some p\<close> when it
  points to a pose \<open>p\<close>. The result is the returned score and the pose written through
  the pointer.
\<close>

definition Match ::
  "('p, 'l) collaborators \<Rightarrow> RealTimeCorrelativeScanMatcherOptions \<Rightarrow> Rigid2d \<Rightarrow> 'p \<Rightarrow> 'l Grid2D
     \<Rightarrow> Rigid2d option \<Rightarrow> failure + (real \<times> Rigid2d)" where
  "Match ext options initial_pose_estimate point_cloud grid pose_estimate =
     (case pose_estimate of
        None \<Rightarrow> Inl CHECK_pose_estimate_not_null
      | Some old_pose \<Rightarrow>
          (case scored_candidates ext options initial_pose_estimate point_cloud grid of
             Inl e \<Rightarrow> Inl e
           | Inr candidates \<Rightarrow>
               (case max_element candidates of
                  None \<Rightarrow> Inl dereference_of_end
                | Some best_candidate \<Rightarrow>
                    Inr (score best_candidate,
                         \<lparr> translation =
                             (fst (translation initial_pose_estimate) + x best_candidate,
                              snd (translation initial_pose_estimate) + y best_candidate),
                           rotation =
                             compose (rotation initial_pose_estimate)
                               (Rotation2D (orientation best_candidate)) \<rparr>))))"

section \<open>The enumeration and the count, as the spec states them\<close>

text \<open>
  The candidates of one scan index, as the two inner loops leave them: \<open>x_index_offset\<close>
  outside, \<open>y_index_offset\<close> inside.
\<close>

definition candidates_of_scan :: "SearchParameters \<Rightarrow> int \<Rightarrow> LinearBounds \<Rightarrow> Candidate2D list" where
  "candidates_of_scan sp i b =
     concat (map (\<lambda>xo. map (\<lambda>yo. Candidate2D_init i xo yo sp) [min_y b..max_y b]) [min_x b..max_x b])"

text \<open>
  What the spec counts for one rotation index: \<open>(max_x - min_x + 1) * (max_y - min_y + 1)\<close>.
\<close>

definition count_at :: "SearchParameters \<Rightarrow> int \<Rightarrow> int" where
  "count_at sp s =
     (let b = linear_bounds sp ! nat s
      in (max_x b - min_x b + 1) * (max_y b - min_y b + 1))"

text \<open>
  The total of the spec: the sum of these products over the rotation indices
  \<open>0, ..., num_scans - 1\<close>.
\<close>

definition num_candidates_of :: "SearchParameters \<Rightarrow> int" where
  "num_candidates_of sp = (\<Sum>s\<leftarrow>[0..num_scans sp - 1]. count_at sp s)"

text \<open>
  The enumeration of the spec: the triples \<open>(scan_index, x_index_offset, y_index_offset)\<close>
  within the bounds, the scan index outermost and the y offset innermost.
\<close>

definition enumerated_triples :: "SearchParameters \<Rightarrow> (int \<times> int \<times> int) list" where
  "enumerated_triples sp =
     concat (map (\<lambda>s.
       concat (map (\<lambda>xo.
         map (\<lambda>yo. (s, xo, yo))
           [min_y (linear_bounds sp ! nat s)..max_y (linear_bounds sp ! nat s)])
         [min_x (linear_bounds sp ! nat s)..max_x (linear_bounds sp ! nat s)]))
       [0..num_scans sp - 1])"

text \<open>
  One candidate for each triple of the enumeration.
\<close>

definition exhaustive_candidates :: "SearchParameters \<Rightarrow> Candidate2D list" where
  "exhaustive_candidates sp =
     map (\<lambda>(s, xo, yo). Candidate2D_init s xo yo sp) (enumerated_triples sp)"

text \<open>
  Every scan index below \<open>num_scans\<close> has its entry in \<open>linear_bounds\<close>.
\<close>

definition scans_in_range :: "SearchParameters \<Rightarrow> bool" where
  "scans_in_range sp \<longleftrightarrow> 0 \<le> num_scans sp \<and> num_scans sp \<le> int (length (linear_bounds sp))"

text \<open>
  No range of offsets is more than empty: \<open>min \<le> max + 1\<close> in both directions, for every
  scan index. Then the product of the spec is the number of offsets in the range.
\<close>

definition bounds_ordered :: "SearchParameters \<Rightarrow> bool" where
  "bounds_ordered sp \<longleftrightarrow>
     list_all (\<lambda>s. min_x (linear_bounds sp ! nat s) \<le> max_x (linear_bounds sp ! nat s) + 1
                 \<and> min_y (linear_bounds sp ! nat s) \<le> max_y (linear_bounds sp ! nat s) + 1)
       [0..num_scans sp - 1]"

text \<open>
  The order of nested loops on triples: by scan index first, then by x offset, then by y
  offset.
\<close>

definition nested_before :: "int \<times> int \<times> int \<Rightarrow> int \<times> int \<times> int \<Rightarrow> bool" where
  "nested_before a b \<longleftrightarrow>
     fst a < fst b
     \<or> (fst a = fst b \<and> (fst (snd a) < fst (snd b)
         \<or> (fst (snd a) = fst (snd b) \<and> snd (snd a) < snd (snd b))))"

text \<open>
  The search parameters of a call of \<^verbatim>\<open>Match\<close>: the value of its local variable
  \<open>search_parameters\<close>.
\<close>

definition search_parameters_of ::
  "('p, 'l) collaborators \<Rightarrow> RealTimeCorrelativeScanMatcherOptions \<Rightarrow> Rigid2d \<Rightarrow> 'p \<Rightarrow> 'l Grid2D
     \<Rightarrow> SearchParameters" where
  "search_parameters_of ext options initial_pose_estimate point_cloud grid =
     SearchParameters_init ext (linear_search_window options) (angular_search_window options)
       (TransformPointCloud ext point_cloud (angle (rotation initial_pose_estimate)))
       (limits_resolution ext (limits grid))"

text \<open>
  The triple a candidate stands for.
\<close>

definition triple_of :: "Candidate2D \<Rightarrow> int \<times> int \<times> int" where
  "triple_of c = (scan_index c, x_index_offset c, y_index_offset c)"

text \<open>
  The sum of a list of floats as a loop computes it: every partial sum is rounded.
\<close>

definition float_sum :: "real list \<Rightarrow> real" where
  "float_sum vs = foldl (\<lambda>s v. float32 (s + v)) 0 vs"

text \<open>
  No partial sum of the list needs rounding: each of them is a float.
\<close>

definition sums_exact :: "real list \<Rightarrow> bool" where
  "sums_exact vs \<longleftrightarrow> list_all (\<lambda>k. is_float32 (sum_list (take k vs))) [0..<Suc (length vs)]"

text \<open>
  What \<^verbatim>\<open>ScoreCandidates\<close> leaves of one candidate, and the stores it makes to the score
  field of the candidate at index \<open>i\<close>: the score of the switch, unless the tag is not
  handled, and then that score times the penalty, rounded. Both are of use only where the
  switch does not fail.
\<close>

definition final_candidate ::
  "RealTimeCorrelativeScanMatcherOptions \<Rightarrow> 'l Grid2D \<Rightarrow> DiscreteScan2D list \<Rightarrow> Candidate2D
     \<Rightarrow> Candidate2D" where
  "final_candidate options grid scans c =
     (case dispatch_score grid scans c of
        Inl e \<Rightarrow> c
      | Inr raw \<Rightarrow> c\<lparr>score := float32 (raw * penalty options c)\<rparr>)"

definition stores_of ::
  "RealTimeCorrelativeScanMatcherOptions \<Rightarrow> 'l Grid2D \<Rightarrow> DiscreteScan2D list \<Rightarrow> nat \<Rightarrow> Candidate2D
     \<Rightarrow> (nat \<times> real) list" where
  "stores_of options grid scans i c =
     (case dispatch_score grid scans c of
        Inl e \<Rightarrow> []
      | Inr raw \<Rightarrow>
          (if GetGridType grid = UNHANDLED_GRID_TYPE then [] else [(i, raw)])
          @ [(i, float32 (raw * penalty options c))])"

section \<open>Examples\<close>

text \<open>
  Search parameters with two scans: two x offsets and one y offset for the first, one x offset
  and two y offsets for the second.
\<close>

definition example_parameters :: SearchParameters where
  "example_parameters =
     \<lparr> num_scans = 2,
       linear_bounds = [\<lparr>min_x = 0, max_x = 1, min_y = 0, max_y = 0\<rparr>,
                        \<lparr>min_x = -1, max_x = -1, min_y = 2, max_y = 3\<rparr>],
       resolution = 1 / 20, center_index = 1, angular_step = 1 / 100 \<rparr>"

text \<open>
  Search parameters whose single range runs backwards in both directions: the product of the
  two negative widths is \<open>1\<close>, and the loops produce nothing.
\<close>

definition mismatch_parameters :: SearchParameters where
  "mismatch_parameters =
     \<lparr> num_scans = 1,
       linear_bounds = [\<lparr>min_x = 1, max_x = -1, min_y = 1, max_y = -1\<rparr>],
       resolution = 1 / 20, center_index = 0, angular_step = 1 / 100 \<rparr>"

text \<open>
  Grids for the examples: a probability grid with the same probability in every cell, one
  with two cells of high probability, a TSDF without any weight, a grid whose tag the switch
  does not name, a TSDF with the distance \<open>-1/2\<close> and the weight \<open>2\<close> in every cell, and a
  TSDF with the weight \<open>1\<close> and a distance in every cell that leaves the value
  \<open>15099494 / 16777216\<close>, the float nearest to \<open>0.9\<close>.
\<close>

definition uniform_grid :: "real \<Rightarrow> unit Grid2D" where
  "uniform_grid p =
     \<lparr> limits = (), GetGridType = PROBABILITY_GRID, GetProbability = (\<lambda>cell. p),
       GetTSDAndWeight = (\<lambda>cell. (0, 0)), GetMaxCorrespondenceCost = 1 \<rparr>"

definition peaked_grid :: "unit Grid2D" where
  "peaked_grid =
     \<lparr> limits = (), GetGridType = PROBABILITY_GRID,
       GetProbability = (\<lambda>cell. if cell = (1, 0) \<or> cell = (-1, 3) then 3 / 4 else 1 / 4),
       GetTSDAndWeight = (\<lambda>cell. (0, 0)), GetMaxCorrespondenceCost = 1 \<rparr>"


definition unhandled_grid :: "unit Grid2D" where
  "unhandled_grid =
     \<lparr> limits = (), GetGridType = UNHANDLED_GRID_TYPE, GetProbability = (\<lambda>cell. 1 / 2),
       GetTSDAndWeight = (\<lambda>cell. (0, 1)), GetMaxCorrespondenceCost = 1 \<rparr>"

definition example_tsdf :: "unit Grid2D" where
  "example_tsdf =
     \<lparr> limits = (), GetGridType = TSDF, GetProbability = (\<lambda>cell. 0),
       GetTSDAndWeight = (\<lambda>cell. (- (1 / 2), 2)), GetMaxCorrespondenceCost = 1 \<rparr>"

definition rounding_tsdf :: "unit Grid2D" where
  "rounding_tsdf =
     \<lparr> limits = (), GetGridType = TSDF, GetProbability = (\<lambda>cell. 0),
       GetTSDAndWeight = (\<lambda>cell. (1677722 / 16777216, 1)), GetMaxCorrespondenceCost = 1 \<rparr>"

text \<open>
  Options with both weights of the penalty equal to \<open>w\<close>.
\<close>

definition example_options :: "real \<Rightarrow> RealTimeCorrelativeScanMatcherOptions" where
  "example_options w =
     \<lparr> linear_search_window = 1 / 20, angular_search_window = 1 / 100,
       translation_delta_cost_weight = w, rotation_delta_cost_weight = w \<rparr>"

text \<open>
  Two discrete scans of one point each, for the two scan indices of the example.
\<close>

definition example_scans :: "DiscreteScan2D list" where
  "example_scans = [[(0, 0)], [(0, 0)]]"

text \<open>
  Collaborators for the examples: they keep the point cloud as it is and produce the search
  parameters and the discrete scans above. The initial pose of the examples is at \<open>(1, 2)\<close>,
  turned by \<open>1/2\<close>.
\<close>

definition example_collaborators :: "(unit, unit) collaborators" where
  "example_collaborators =
     \<lparr> TransformPointCloud = (\<lambda>cloud a. cloud),
       SearchParameters_init = (\<lambda>linear angular cloud res. example_parameters),
       GenerateRotatedScans = (\<lambda>cloud sp. [cloud, cloud]),
       DiscretizeScans = (\<lambda>lim scans t. example_scans),
       limits_resolution = (\<lambda>lim. 1 / 20) \<rparr>"

definition example_pose :: Rigid2d where
  "example_pose = \<lparr> translation = (1, 2), rotation = Rotation2D (1 / 2) \<rparr>"

text \<open>
  Two candidates of the first scan: one at offset \<open>(0, 0)\<close>, one at offset \<open>(1, 0)\<close>.
\<close>

definition near_candidate :: Candidate2D where
  "near_candidate = Candidate2D_init 0 0 0 example_parameters"

definition far_candidate :: Candidate2D where
  "far_candidate = Candidate2D_init 0 1 0 example_parameters"

text \<open>
  The four candidates of the example, with the scores the grid with two peaks gives them.
\<close>

definition example_scored :: "Candidate2D list" where
  "example_scored =
     [(Candidate2D_init 0 0 0 example_parameters)\<lparr>score := 1 / 4\<rparr>,
      (Candidate2D_init 0 1 0 example_parameters)\<lparr>score := 3 / 4\<rparr>,
      (Candidate2D_init 1 (-1) 2 example_parameters)\<lparr>score := 1 / 4\<rparr>,
      (Candidate2D_init 1 (-1) 3 example_parameters)\<lparr>score := 3 / 4\<rparr>]"

section \<open>Lemmas\<close>

subsection \<open>Rounding to float\<close>

lemma round_to_even_of_int [simp]: "round_to_even (of_int k) = k"
  by (simp add: round_to_even_def)



lemma pow2_pos: "0 < (2::real) powi e"
  by simp




lemma float32_zero [simp]: "float32 0 = 0"
  by (simp add: float32_def)


lemma floor_log2_eq:
  assumes "2 powi e \<le> (v::real)" and "v < 2 powi (e + 1)"
  shows "\<lfloor>log 2 v\<rfloor> = e"
proof -
  have pos: "0 < v"
    using assms(1) pow2_pos[of e] by linarith
  have c: "(2::real) powr real_of_int k = 2 powi k" for k
    by (rule powr_real_of_int') simp_all
  have "2 powr real_of_int e \<le> v \<and> v < 2 powr (real_of_int e + 1)"
    using assms c[of e] c[of "e + 1"] by (simp add: add.commute)
  then show ?thesis
    using floor_log_eq_powr_iff[of v 2 e] pos by simp
qed

lemma float32_eq:
  assumes "2 powi e \<le> \<bar>v\<bar>" and "\<bar>v\<bar> < 2 powi (e + 1)" and "- 126 \<le> e"
  shows "float32 v = of_int (round_to_even (v / 2 powi (e - 23))) * 2 powi (e - 23)"
proof -
  have "0 < \<bar>v\<bar>"
    using assms(1) pow2_pos[of e] by linarith
  then have "v \<noteq> 0"
    by simp
  moreover have "float32_exponent v = e"
    using floor_log2_eq[OF assms(1,2)] assms(3) by (simp add: float32_exponent_def)
  ultimately show ?thesis by (simp add: float32_def)
qed






text \<open>Floats the examples meet, and two sums and a quotient that are rounded.\<close>

lemma float32_values:
  "float32 1 = 1" "float32 2 = 2" "float32 3 = 3" "float32 4 = 4"
  "float32 (1 / 2) = 1 / 2" "float32 (1 / 4) = 1 / 4" "float32 (3 / 4) = 3 / 4"
  using float32_eq[of 0 1] float32_eq[of 1 2] float32_eq[of 1 3] float32_eq[of 2 4]
    float32_eq[of "- 1" "1 / 2"] float32_eq[of "- 2" "1 / 4"] float32_eq[of "- 1" "3 / 4"]
  by (simp_all add: power_int_minus round_to_even_def)

lemma float32_point_nine:
  "float32 (7549747 / 8388608) = 7549747 / 8388608"
  "float32 (7549747 / 4194304) = 7549747 / 4194304"
  "float32 (22649241 / 8388608) = 2831155 / 1048576"
  "float32 (2831155 / 3145728) = 15099493 / 16777216"
  "float32 (838861 / 8388608) = 838861 / 8388608"
  using float32_eq[of "- 1" "7549747 / 8388608"] float32_eq[of 0 "7549747 / 4194304"]
    float32_eq[of 1 "22649241 / 8388608"] float32_eq[of "- 1" "2831155 / 3145728"]
    float32_eq[of "- 4" "838861 / 8388608"]
  by (simp_all add: power_int_minus round_to_even_def)



subsection \<open>The loops of the enumeration\<close>

text \<open>
  The equations of the four loops unfold without end, so the simplifier does not use them;
  the proofs unfold one step at a time.
\<close>

declare count_loop.simps [simp del] y_loop.simps [simp del] x_loop.simps [simp del] scan_loop.simps [simp del]

lemma y_loop_eq:
  "y_loop sp i xo yo y_last cs = cs @ map (\<lambda>yo. Candidate2D_init i xo yo sp) [yo..y_last]"
proof (induction sp i xo yo y_last cs rule: y_loop.induct)
  case (1 sp i xo yo y_last cs)
  show ?case
  proof (cases "yo \<le> y_last")
    case True
    then have "[yo..y_last] = yo # [yo + 1..y_last]" by (simp add: upto_rec1)
    with True 1 show ?thesis by (subst y_loop.simps) simp
  next
    case False
    then show ?thesis by (subst y_loop.simps) simp
  qed
qed

lemma x_loop_eq:
  "x_loop sp i b xo cs =
     cs @ concat (map (\<lambda>xo. map (\<lambda>yo. Candidate2D_init i xo yo sp) [min_y b..max_y b]) [xo..max_x b])"
proof (induction sp i b xo cs rule: x_loop.induct)
  case (1 sp i b xo cs)
  show ?case
  proof (cases "xo \<le> max_x b")
    case True
    then have "[xo..max_x b] = xo # [xo + 1..max_x b]" by (simp add: upto_rec1)
    with True 1 show ?thesis by (subst x_loop.simps) (simp add: y_loop_eq)
  next
    case False
    then show ?thesis by (subst x_loop.simps) simp
  qed
qed

lemma scan_loop_eq:
  "0 \<le> i \<Longrightarrow> i \<le> num_scans sp \<Longrightarrow> num_scans sp \<le> int (length (linear_bounds sp)) \<Longrightarrow>
   scan_loop sp i cs =
     Inr (cs @ concat (map (\<lambda>s. candidates_of_scan sp s (linear_bounds sp ! nat s)) [i..num_scans sp - 1]))"
proof (induction sp i cs rule: scan_loop.induct)
  case (1 sp i cs)
  show ?case
  proof (cases "i = num_scans sp")
    case True
    then show ?thesis by (subst scan_loop.simps) simp
  next
    case False
    with 1(2-4) have lt: "i < num_scans sp" by simp
    with 1(2-4) have b: "bounds_at sp i = Inr (linear_bounds sp ! nat i)"
      by (simp add: bounds_at_def)
    from lt have u: "[i..num_scans sp - 1] = i # [i + 1..num_scans sp - 1]"
      by (simp add: upto_rec1)
    have "scan_loop sp i cs =
            scan_loop sp (i + 1) (x_loop sp i (linear_bounds sp ! nat i) (min_x (linear_bounds sp ! nat i)) cs)"
      using False b by (subst scan_loop.simps) simp
    also have "\<dots> = Inr (x_loop sp i (linear_bounds sp ! nat i) (min_x (linear_bounds sp ! nat i)) cs
                 @ concat (map (\<lambda>s. candidates_of_scan sp s (linear_bounds sp ! nat s)) [i + 1..num_scans sp - 1]))"
      using 1(1)[OF False b] 1(2-4) lt by simp
    finally show ?thesis
      by (simp add: u x_loop_eq candidates_of_scan_def)
  qed
qed

lemma scan_loop_fails:
  "0 \<le> i \<Longrightarrow> i \<le> int (length (linear_bounds sp)) \<Longrightarrow>
   num_scans sp < i \<or> int (length (linear_bounds sp)) < num_scans sp \<Longrightarrow>
   scan_loop sp i cs = Inl index_out_of_range"
proof (induction sp i cs rule: scan_loop.induct)
  case (1 sp i cs)
  show ?case
  proof (cases "i < int (length (linear_bounds sp))")
    case True
    with 1(2-4) have ne: "i \<noteq> num_scans sp" by auto
    from True 1(2) have b: "bounds_at sp i = Inr (linear_bounds sp ! nat i)"
      by (simp add: bounds_at_def)
    have "scan_loop sp (i + 1) (x_loop sp i (linear_bounds sp ! nat i) (min_x (linear_bounds sp ! nat i)) cs)
            = Inl index_out_of_range"
      using 1(1)[OF ne b] 1(2-4) True by auto
    then show ?thesis using ne b by (subst scan_loop.simps) simp
  next
    case False
    with 1(2-4) have ne: "i \<noteq> num_scans sp" by auto
    from False have b: "bounds_at sp i = Inl index_out_of_range"
      by (simp add: bounds_at_def)
    show ?thesis using ne b by (subst scan_loop.simps) simp
  qed
qed

lemma count_loop_eq:
  "0 \<le> i \<Longrightarrow> i \<le> num_scans sp \<Longrightarrow> num_scans sp \<le> int (length (linear_bounds sp)) \<Longrightarrow>
   count_loop sp i n = Inr (n + (\<Sum>s\<leftarrow>[i..num_scans sp - 1]. count_at sp s))"
proof (induction sp i n rule: count_loop.induct)
  case (1 sp i n)
  show ?case
  proof (cases "i = num_scans sp")
    case True
    then show ?thesis by (subst count_loop.simps) simp
  next
    case False
    with 1(2-4) have lt: "i < num_scans sp" by simp
    with 1(2-4) have b: "bounds_at sp i = Inr (linear_bounds sp ! nat i)"
      by (simp add: bounds_at_def)
    from lt have u: "[i..num_scans sp - 1] = i # [i + 1..num_scans sp - 1]"
      by (simp add: upto_rec1)
    have "count_loop sp i n = count_loop sp (i + 1) (n + count_at sp i)"
      using False b by (subst count_loop.simps) (simp add: count_at_def Let_def)
    also have "\<dots> = Inr (n + count_at sp i + (\<Sum>s\<leftarrow>[i + 1..num_scans sp - 1]. count_at sp s))"
      using 1(1)[OF False b refl refl] 1(2-4) lt by (simp add: count_at_def Let_def)
    finally show ?thesis
      by (simp add: u)
  qed
qed

lemma count_loop_fails:
  "0 \<le> i \<Longrightarrow> i \<le> int (length (linear_bounds sp)) \<Longrightarrow>
   num_scans sp < i \<or> int (length (linear_bounds sp)) < num_scans sp \<Longrightarrow>
   count_loop sp i n = Inl index_out_of_range"
proof (induction sp i n rule: count_loop.induct)
  case (1 sp i n)
  show ?case
  proof (cases "i < int (length (linear_bounds sp))")
    case True
    with 1(2-4) have ne: "i \<noteq> num_scans sp" by auto
    from True 1(2) have b: "bounds_at sp i = Inr (linear_bounds sp ! nat i)"
      by (simp add: bounds_at_def)
    have "count_loop sp (i + 1) (n + count_at sp i) = Inl index_out_of_range"
      using 1(1)[OF ne b refl refl] 1(2-4) True by (auto simp: count_at_def Let_def)
    then show ?thesis using ne b by (subst count_loop.simps) (simp add: count_at_def Let_def)
  next
    case False
    with 1(2-4) have ne: "i \<noteq> num_scans sp" by auto
    from False have b: "bounds_at sp i = Inl index_out_of_range"
      by (simp add: bounds_at_def)
    show ?thesis using ne b by (subst count_loop.simps) simp
  qed
qed

lemma exhaustive_candidates_eq:
  "exhaustive_candidates sp =
     concat (map (\<lambda>s. candidates_of_scan sp s (linear_bounds sp ! nat s)) [0..num_scans sp - 1])"
  by (simp add: exhaustive_candidates_def enumerated_triples_def candidates_of_scan_def
        map_concat comp_def)

lemma GenerateExhaustiveSearchCandidates_in_range:
  assumes "scans_in_range sp"
  shows "GenerateExhaustiveSearchCandidates sp =
           (if num_candidates_of sp < 0 then Inl length_error
            else if int (length (exhaustive_candidates sp)) = num_candidates_of sp
                 then Inr (exhaustive_candidates sp)
                 else Inl CHECK_EQ_num_candidates)"
proof -
  from assms have r: "0 \<le> num_scans sp" "num_scans sp \<le> int (length (linear_bounds sp))"
    by (simp_all add: scans_in_range_def)
  have c: "count_loop sp 0 0 = Inr (num_candidates_of sp)"
    using count_loop_eq[of 0 sp 0] r by (simp add: num_candidates_of_def)
  have s: "scan_loop sp 0 [] = Inr (exhaustive_candidates sp)"
    using scan_loop_eq[of 0 sp "[]"] r by (simp add: exhaustive_candidates_eq)
  show ?thesis
    by (simp add: GenerateExhaustiveSearchCandidates_def c s)
qed

lemma GenerateExhaustiveSearchCandidates_out_of_range:
  assumes "\<not> scans_in_range sp"
  shows "GenerateExhaustiveSearchCandidates sp = Inl index_out_of_range"
proof -
  from assms have "num_scans sp < 0 \<or> int (length (linear_bounds sp)) < num_scans sp"
    by (auto simp: scans_in_range_def)
  then have "count_loop sp 0 0 = Inl index_out_of_range"
    using count_loop_fails[of 0 sp 0] by simp
  then show ?thesis
    by (simp add: GenerateExhaustiveSearchCandidates_def)
qed

subsection \<open>The enumerated triples: count, members, order\<close>

lemma length_upto: "length [i..j] = nat (j - i + 1)"
  by simp

lemma length_concat_map_const:
  "length (concat (map (\<lambda>a. map (f a) ys) xs)) = length xs * length ys"
  by (induction xs) simp_all

lemma length_enumerated_triples:
  "int (length (enumerated_triples sp)) =
     (\<Sum>s\<leftarrow>[0..num_scans sp - 1].
        int (nat (max_x (linear_bounds sp ! nat s) - min_x (linear_bounds sp ! nat s) + 1)
             * nat (max_y (linear_bounds sp ! nat s) - min_y (linear_bounds sp ! nat s) + 1)))"
proof -
  have "int (length (concat (map f xs))) = (\<Sum>s\<leftarrow>xs. int (length (f s)))" for f :: "int \<Rightarrow> (int \<times> int \<times> int) list" and xs
    by (induction xs) simp_all
  then show ?thesis
    unfolding enumerated_triples_def
    by (simp only: length_concat_map_const length_upto)
qed

lemma bounds_ordered_count:
  assumes "bounds_ordered sp"
  shows "int (length (enumerated_triples sp)) = num_candidates_of sp"
proof -
  have "(\<Sum>s\<leftarrow>xs.
        int (nat (max_x (linear_bounds sp ! nat s) - min_x (linear_bounds sp ! nat s) + 1)
             * nat (max_y (linear_bounds sp ! nat s) - min_y (linear_bounds sp ! nat s) + 1)))
       = (\<Sum>s\<leftarrow>xs. count_at sp s)"
    if "list_all (\<lambda>s. min_x (linear_bounds sp ! nat s) \<le> max_x (linear_bounds sp ! nat s) + 1
                 \<and> min_y (linear_bounds sp ! nat s) \<le> max_y (linear_bounds sp ! nat s) + 1) xs" for xs
    using that by (induction xs) (simp_all add: count_at_def Let_def)
  with assms show ?thesis
    by (simp add: length_enumerated_triples bounds_ordered_def num_candidates_of_def)
qed

lemma mem_concat_map: "a \<in> set xs \<Longrightarrow> b \<in> set (f a) \<Longrightarrow> b \<in> set (concat (map f xs))"
  by auto

lemma set_enumerated_triples:
  "set (enumerated_triples sp) =
     {(s, xo, yo). 0 \<le> s \<and> s < num_scans sp
        \<and> min_x (linear_bounds sp ! nat s) \<le> xo \<and> xo \<le> max_x (linear_bounds sp ! nat s)
        \<and> min_y (linear_bounds sp ! nat s) \<le> yo \<and> yo \<le> max_y (linear_bounds sp ! nat s)}"
  (is "?L = ?R")
proof
  show "?L \<subseteq> ?R"
    by (auto simp: enumerated_triples_def)
next
  show "?R \<subseteq> ?L"
  proof clarify
    fix s xo yo
    assume a: "0 \<le> s" "s < num_scans sp"
      "min_x (linear_bounds sp ! nat s) \<le> xo" "xo \<le> max_x (linear_bounds sp ! nat s)"
      "min_y (linear_bounds sp ! nat s) \<le> yo" "yo \<le> max_y (linear_bounds sp ! nat s)"
    show "(s, xo, yo) \<in> set (enumerated_triples sp)"
      unfolding enumerated_triples_def
    proof (rule mem_concat_map[where a = s])
      show "s \<in> set [0..num_scans sp - 1]" using a by simp
    next
      show "(s, xo, yo) \<in> set (concat (map (\<lambda>xo. map (\<lambda>yo. (s, xo, yo))
             [min_y (linear_bounds sp ! nat s)..max_y (linear_bounds sp ! nat s)])
             [min_x (linear_bounds sp ! nat s)..max_x (linear_bounds sp ! nat s)]))"
      proof (rule mem_concat_map[where a = xo])
        show "xo \<in> set [min_x (linear_bounds sp ! nat s)..max_x (linear_bounds sp ! nat s)]"
          using a by simp
      next
        show "(s, xo, yo) \<in> set (map (\<lambda>yo. (s, xo, yo))
                [min_y (linear_bounds sp ! nat s)..max_y (linear_bounds sp ! nat s)])"
          using a by simp
      qed
    qed
  qed
qed

lemma sorted_wrt_concat_map:
  assumes "\<And>a. a \<in> set xs \<Longrightarrow> sorted_wrt P (f a)"
    and "sorted_wrt (\<lambda>a b. \<forall>u\<in>set (f a). \<forall>v\<in>set (f b). P u v) xs"
  shows "sorted_wrt P (concat (map f xs))"
  using assms by (induction xs) (auto simp: sorted_wrt_append)

lemma sorted_enumerated_triples: "sorted_wrt nested_before (enumerated_triples sp)"
  unfolding enumerated_triples_def
proof (rule sorted_wrt_concat_map)
  fix s
  show "sorted_wrt nested_before
          (concat (map (\<lambda>xo. map (\<lambda>yo. (s, xo, yo))
             [min_y (linear_bounds sp ! nat s)..max_y (linear_bounds sp ! nat s)])
             [min_x (linear_bounds sp ! nat s)..max_x (linear_bounds sp ! nat s)]))"
  proof (rule sorted_wrt_concat_map)
    fix xo
    have "sorted_wrt (\<lambda>a b. nested_before (s, xo, a) (s, xo, b)) [i..j]" for i j
      by (rule sorted_wrt_mono_rel[OF _ sorted_wrt_upto]) (simp add: nested_before_def)
    then show "sorted_wrt nested_before (map (\<lambda>yo. (s, xo, yo))
             [min_y (linear_bounds sp ! nat s)..max_y (linear_bounds sp ! nat s)])"
      by (simp add: sorted_wrt_map)
  next
    show "sorted_wrt (\<lambda>a b. \<forall>u\<in>set (map (\<lambda>yo. (s, a, yo)) [min_y (linear_bounds sp ! nat s)..max_y (linear_bounds sp ! nat s)]).
             \<forall>v\<in>set (map (\<lambda>yo. (s, b, yo)) [min_y (linear_bounds sp ! nat s)..max_y (linear_bounds sp ! nat s)]). nested_before u v)
            [min_x (linear_bounds sp ! nat s)..max_x (linear_bounds sp ! nat s)]"
      by (rule sorted_wrt_mono_rel[OF _ sorted_wrt_upto]) (auto simp: nested_before_def)
  qed
next
  show "sorted_wrt (\<lambda>a b.
          \<forall>u\<in>set (concat (map (\<lambda>xo. map (\<lambda>yo. (a, xo, yo))
             [min_y (linear_bounds sp ! nat a)..max_y (linear_bounds sp ! nat a)])
             [min_x (linear_bounds sp ! nat a)..max_x (linear_bounds sp ! nat a)])).
          \<forall>v\<in>set (concat (map (\<lambda>xo. map (\<lambda>yo. (b, xo, yo))
             [min_y (linear_bounds sp ! nat b)..max_y (linear_bounds sp ! nat b)])
             [min_x (linear_bounds sp ! nat b)..max_x (linear_bounds sp ! nat b)])). nested_before u v)
        [0..num_scans sp - 1]"
    by (rule sorted_wrt_mono_rel[OF _ sorted_wrt_upto]) (auto simp: nested_before_def)
qed

lemma example_triples:
  "enumerated_triples example_parameters = [(0, 0, 0), (0, 1, 0), (1, -1, 2), (1, -1, 3)]"
  by (simp add: enumerated_triples_def example_parameters_def upto.simps)

lemma example_in_range: "scans_in_range example_parameters"
  by (simp add: scans_in_range_def example_parameters_def)

lemma example_ordered: "bounds_ordered example_parameters"
  by (simp add: bounds_ordered_def example_parameters_def upto.simps)

lemma example_count: "num_candidates_of example_parameters = 4"
  by (simp add: num_candidates_of_def count_at_def example_parameters_def upto.simps)

lemma GenerateExhaustiveSearchCandidates_Inr:
  assumes "GenerateExhaustiveSearchCandidates sp = Inr cs"
  shows "cs = exhaustive_candidates sp \<and> int (length cs) = num_candidates_of sp"
proof (cases "scans_in_range sp")
  case True
  with assms show ?thesis
    by (simp add: GenerateExhaustiveSearchCandidates_in_range split: if_splits)
next
  case False
  with assms show ?thesis
    by (simp add: GenerateExhaustiveSearchCandidates_out_of_range)
qed

lemma GenerateExhaustiveSearchCandidates_returns:
  assumes "scans_in_range sp" and "bounds_ordered sp"
  shows "GenerateExhaustiveSearchCandidates sp = Inr (exhaustive_candidates sp)"
proof -
  have n: "int (length (exhaustive_candidates sp)) = num_candidates_of sp"
    using bounds_ordered_count[OF assms(2)] by (simp add: exhaustive_candidates_def)
  then have "0 \<le> num_candidates_of sp" by linarith
  with n show ?thesis
    by (simp add: GenerateExhaustiveSearchCandidates_in_range[OF assms(1)])
qed

lemma mismatch_in_range: "scans_in_range mismatch_parameters"
  by (simp add: scans_in_range_def mismatch_parameters_def)

lemma mismatch_count: "num_candidates_of mismatch_parameters = 1"
  by (simp add: num_candidates_of_def count_at_def mismatch_parameters_def upto.simps)

lemma mismatch_triples: "enumerated_triples mismatch_parameters = []"
  by (simp add: enumerated_triples_def mismatch_parameters_def upto.simps)

subsection \<open>The two scorers as float sums\<close>

lemma float_fold_exact:
  assumes "\<And>k. k \<le> length vs \<Longrightarrow> is_float32 (a + sum_list (take k vs))"
  shows "foldl (\<lambda>s v. float32 (s + v)) a vs = a + sum_list vs"
  using assms
proof (induction vs arbitrary: a)
  case Nil
  then show ?case by simp
next
  case (Cons v vs)
  have "is_float32 (a + sum_list (take (Suc 0) (v # vs)))"
    by (rule Cons.prems) simp
  then have first: "float32 (a + v) = a + v"
    by (simp add: is_float32_def)
  have "is_float32 (a + v + sum_list (take k vs))" if "k \<le> length vs" for k
    using Cons.prems[of "Suc k"] that by (simp add: add.assoc)
  then have "foldl (\<lambda>s v. float32 (s + v)) (a + v) vs = a + v + sum_list vs"
    by (rule Cons.IH)
  with first show ?case by simp
qed

lemma sums_exact_iff: "sums_exact vs \<longleftrightarrow> (\<forall>k\<le>length vs. is_float32 (sum_list (take k vs)))"
  by (auto simp: sums_exact_def list_all_iff less_Suc_eq_le)

lemma float_sum_exact: "sums_exact vs \<Longrightarrow> float_sum vs = sum_list vs"
  using float_fold_exact[of vs 0] by (simp add: float_sum_def sums_exact_iff)

lemma foldl_probability_step:
  "foldl (probability_step g dx dy) a scan =
     foldl (\<lambda>s v. float32 (s + v)) a (map (\<lambda>q. GetProbability g (fst q + dx, snd q + dy)) scan)"
  by (induction scan arbitrary: a) (simp_all add: probability_step_def)

lemma foldl_tsdf_step:
  "foldl (tsdf_step g dx dy) a scan =
     (foldl (\<lambda>s v. float32 (s + v)) (fst a)
        (map (\<lambda>q. float32 (normalized_tsd_score g (fst (GetTSDAndWeight g (fst q + dx, snd q + dy)))
                            * snd (GetTSDAndWeight g (fst q + dx, snd q + dy)))) scan),
      foldl (\<lambda>s v. float32 (s + v)) (snd a)
        (map (\<lambda>q. snd (GetTSDAndWeight g (fst q + dx, snd q + dy))) scan))"
  by (induction scan arbitrary: a) (simp_all add: tsdf_step_def Let_def)

lemma probability_score_eq:
  "ComputeCandidateScore_ProbabilityGrid g scan dx dy =
     (if scan \<noteq> []
         \<and> 0 < float32 (float_sum (map (\<lambda>q. GetProbability g (fst q + dx, snd q + dy)) scan)
                        / float32 (real (length scan)))
      then Inr (float32 (float_sum (map (\<lambda>q. GetProbability g (fst q + dx, snd q + dy)) scan)
                         / float32 (real (length scan))))
      else Inl CHECK_GT_candidate_score)"
  by (simp add: ComputeCandidateScore_ProbabilityGrid_def foldl_probability_step Let_def
        float_sum_def)

lemma tsdf_score_eq:
  "ComputeCandidateScore_TSDF2D g scan dx dy =
     (if float_sum (map (\<lambda>q. snd (GetTSDAndWeight g (fst q + dx, snd q + dy))) scan) = 0 then Inr 0
      else if 0 \<le> float32
                     (float_sum (map (\<lambda>q. float32 (normalized_tsd_score g (fst (GetTSDAndWeight g (fst q + dx, snd q + dy)))
                                                    * snd (GetTSDAndWeight g (fst q + dx, snd q + dy)))) scan)
                      / float_sum (map (\<lambda>q. snd (GetTSDAndWeight g (fst q + dx, snd q + dy))) scan))
           then Inr (float32
                     (float_sum (map (\<lambda>q. float32 (normalized_tsd_score g (fst (GetTSDAndWeight g (fst q + dx, snd q + dy)))
                                                    * snd (GetTSDAndWeight g (fst q + dx, snd q + dy)))) scan)
                      / float_sum (map (\<lambda>q. snd (GetTSDAndWeight g (fst q + dx, snd q + dy))) scan)))
           else Inl CHECK_GE_candidate_score)"
  by (simp add: ComputeCandidateScore_TSDF2D_def foldl_tsdf_step Let_def float_sum_def)

lemma probability_score_exact:
  assumes "sums_exact (map (\<lambda>q. GetProbability g (fst q + dx, snd q + dy)) scan)"
    and "is_float32 (real (length scan))"
    and "is_float32 (sum_list (map (\<lambda>q. GetProbability g (fst q + dx, snd q + dy)) scan)
                     / real (length scan))"
  shows "ComputeCandidateScore_ProbabilityGrid g scan dx dy =
     (if scan \<noteq> []
         \<and> 0 < sum_list (map (\<lambda>q. GetProbability g (fst q + dx, snd q + dy)) scan) / real (length scan)
      then Inr (sum_list (map (\<lambda>q. GetProbability g (fst q + dx, snd q + dy)) scan) / real (length scan))
      else Inl CHECK_GT_candidate_score)"
  using assms(2,3)
  by (simp add: probability_score_eq float_sum_exact[OF assms(1)] is_float32_def)

lemma probability_score_uniform:
  assumes "scan \<noteq> []"
    and "\<forall>q\<in>set scan. GetProbability g (fst q + dx, snd q + dy) = p"
    and "0 < p"
    and "\<forall>k\<le>length scan. is_float32 (real k * p)"
    and "is_float32 (real (length scan))"
  shows "ComputeCandidateScore_ProbabilityGrid g scan dx dy = Inr p"
proof -
  have part: "sum_list (take k (map (\<lambda>q. GetProbability g (fst q + dx, snd q + dy)) scan)) = real k * p"
    if "k \<le> length scan" for k
  proof -
    have same: "map (\<lambda>q. GetProbability g (fst q + dx, snd q + dy)) (take k scan) = map (\<lambda>q. p) (take k scan)"
      using assms(2) by (intro map_cong refl) (auto dest: in_set_takeD)
    have "sum_list (take k (map (\<lambda>q. GetProbability g (fst q + dx, snd q + dy)) scan))
            = sum_list (map (\<lambda>q. p) (take k scan))"
      by (simp only: take_map same)
    also have "\<dots> = real k * p"
      using that by (simp add: sum_list_triv)
    finally show ?thesis .
  qed
  have exact: "sums_exact (map (\<lambda>q. GetProbability g (fst q + dx, snd q + dy)) scan)"
    using assms(4) by (simp add: sums_exact_iff part)
  have total: "sum_list (map (\<lambda>q. GetProbability g (fst q + dx, snd q + dy)) scan) = real (length scan) * p"
    using part[of "length scan"] by simp
  have "Suc 0 \<le> length scan"
    using assms(1) by (cases scan) simp_all
  then have "is_float32 (real (Suc 0) * p)"
    using assms(4) by blast
  then have p: "is_float32 p" by simp
  have mean: "sum_list (map (\<lambda>q. GetProbability g (fst q + dx, snd q + dy)) scan) / real (length scan) = p"
    using assms(1) by (simp add: total)
  show ?thesis
    using probability_score_exact[OF exact assms(5)] p assms(1,3) by (simp add: mean)
qed

lemma probability_score_single:
  assumes "is_float32 p" and "0 < p" and "GetProbability g (fst q + dx, snd q + dy) = p"
  shows "ComputeCandidateScore_ProbabilityGrid g [q] dx dy = Inr p"
  using assms by (simp add: probability_score_eq float_sum_def is_float32_def float32_values)

lemma tsdf_score_exact:
  assumes "\<forall>q\<in>set scan.
             is_float32 (GetMaxCorrespondenceCost g - \<bar>fst (GetTSDAndWeight g (fst q + dx, snd q + dy))\<bar>)
             \<and> is_float32 ((GetMaxCorrespondenceCost g - \<bar>fst (GetTSDAndWeight g (fst q + dx, snd q + dy))\<bar>)
                           / GetMaxCorrespondenceCost g)
             \<and> is_float32 ((GetMaxCorrespondenceCost g - \<bar>fst (GetTSDAndWeight g (fst q + dx, snd q + dy))\<bar>)
                           / GetMaxCorrespondenceCost g
                           * snd (GetTSDAndWeight g (fst q + dx, snd q + dy)))"
    and "sums_exact (map (\<lambda>q. (GetMaxCorrespondenceCost g - \<bar>fst (GetTSDAndWeight g (fst q + dx, snd q + dy))\<bar>)
                               / GetMaxCorrespondenceCost g
                               * snd (GetTSDAndWeight g (fst q + dx, snd q + dy))) scan)"
    and "sums_exact (map (\<lambda>q. snd (GetTSDAndWeight g (fst q + dx, snd q + dy))) scan)"
    and "is_float32 (sum_list (map (\<lambda>q. (GetMaxCorrespondenceCost g - \<bar>fst (GetTSDAndWeight g (fst q + dx, snd q + dy))\<bar>)
                                          / GetMaxCorrespondenceCost g
                                          * snd (GetTSDAndWeight g (fst q + dx, snd q + dy))) scan)
                     / sum_list (map (\<lambda>q. snd (GetTSDAndWeight g (fst q + dx, snd q + dy))) scan))"
  shows "ComputeCandidateScore_TSDF2D g scan dx dy =
     (if sum_list (map (\<lambda>q. snd (GetTSDAndWeight g (fst q + dx, snd q + dy))) scan) = 0 then Inr 0
      else if 0 \<le> sum_list (map (\<lambda>q. (GetMaxCorrespondenceCost g - \<bar>fst (GetTSDAndWeight g (fst q + dx, snd q + dy))\<bar>)
                                       / GetMaxCorrespondenceCost g
                                       * snd (GetTSDAndWeight g (fst q + dx, snd q + dy))) scan)
                    / sum_list (map (\<lambda>q. snd (GetTSDAndWeight g (fst q + dx, snd q + dy))) scan)
           then Inr (sum_list (map (\<lambda>q. (GetMaxCorrespondenceCost g - \<bar>fst (GetTSDAndWeight g (fst q + dx, snd q + dy))\<bar>)
                                         / GetMaxCorrespondenceCost g
                                         * snd (GetTSDAndWeight g (fst q + dx, snd q + dy))) scan)
                     / sum_list (map (\<lambda>q. snd (GetTSDAndWeight g (fst q + dx, snd q + dy))) scan))
           else Inl CHECK_GE_candidate_score)"
proof -
  have pointwise: "map (\<lambda>q. float32 (normalized_tsd_score g (fst (GetTSDAndWeight g (fst q + dx, snd q + dy)))
                                   * snd (GetTSDAndWeight g (fst q + dx, snd q + dy)))) scan
        = map (\<lambda>q. (GetMaxCorrespondenceCost g - \<bar>fst (GetTSDAndWeight g (fst q + dx, snd q + dy))\<bar>)
                    / GetMaxCorrespondenceCost g
                    * snd (GetTSDAndWeight g (fst q + dx, snd q + dy))) scan"
    using assms(1) by (intro map_cong refl) (simp add: normalized_tsd_score_def is_float32_def)
  show ?thesis
    unfolding tsdf_score_eq pointwise float_sum_exact[OF assms(2)] float_sum_exact[OF assms(3)]
      assms(4)[unfolded is_float32_def]
    by (rule refl)
qed

lemma normalized_tsd_score_at_cost:
  "\<bar>tsd\<bar> = GetMaxCorrespondenceCost g \<Longrightarrow> normalized_tsd_score g tsd = 0"
  by (simp add: normalized_tsd_score_def)

lemma normalized_tsd_score_at_zero:
  "GetMaxCorrespondenceCost g \<noteq> 0 \<Longrightarrow> is_float32 (GetMaxCorrespondenceCost g)
     \<Longrightarrow> normalized_tsd_score g 0 = 1"
  by (simp add: normalized_tsd_score_def is_float32_def float32_values)

subsection \<open>The first maximal element\<close>

lemma max_element_from_foldl:
  "max_element_from l cs = foldl (\<lambda>m c. if Candidate2D_less m c then c else m) l cs"
  by (induction cs arbitrary: l) simp_all

lemma max_element_from_snoc:
  "max_element_from l (cs @ [c]) =
     (if Candidate2D_less (max_element_from l cs) c then c else max_element_from l cs)"
  by (simp add: max_element_from_foldl)

lemma first_max_snoc:
  fixes f :: "'a \<Rightarrow> real"
  assumes k: "k < length xs"
    and le: "\<forall>j<length xs. f (xs ! j) \<le> f (xs ! k)"
    and lt: "\<forall>j<k. f (xs ! j) < f (xs ! k)"
  shows "\<exists>k'<length (xs @ [c]).
           (if f (xs ! k) < f c then c else xs ! k) = (xs @ [c]) ! k'
           \<and> (\<forall>j<length (xs @ [c]). f ((xs @ [c]) ! j) \<le> f ((xs @ [c]) ! k'))
           \<and> (\<forall>j<k'. f ((xs @ [c]) ! j) < f ((xs @ [c]) ! k'))"
proof (cases "f (xs ! k) < f c")
  case True
  have below: "f (xs ! j) < f c" if "j < length xs" for j
  proof -
    from that le have "f (xs ! j) \<le> f (xs ! k)" by blast
    with True show ?thesis by simp
  qed
  have "\<forall>j<length (xs @ [c]). f ((xs @ [c]) ! j) \<le> f ((xs @ [c]) ! length xs)"
  proof (intro allI impI)
    fix j assume "j < length (xs @ [c])"
    then consider "j < length xs" | "j = length xs" by fastforce
    then show "f ((xs @ [c]) ! j) \<le> f ((xs @ [c]) ! length xs)"
    proof cases
      case 1
      with below[OF 1] show ?thesis by (simp add: nth_append)
    next
      case 2
      then show ?thesis by simp
    qed
  qed
  moreover have "\<forall>j<length xs. f ((xs @ [c]) ! j) < f ((xs @ [c]) ! length xs)"
    using below by (simp add: nth_append)
  ultimately show ?thesis
    using True by (intro exI[of _ "length xs"]) simp
next
  case False
  have kk: "(xs @ [c]) ! k = xs ! k" using k by (simp add: nth_append)
  have "\<forall>j<length (xs @ [c]). f ((xs @ [c]) ! j) \<le> f ((xs @ [c]) ! k)"
  proof (intro allI impI)
    fix j assume "j < length (xs @ [c])"
    then consider "j < length xs" | "j = length xs" by fastforce
    then show "f ((xs @ [c]) ! j) \<le> f ((xs @ [c]) ! k)"
    proof cases
      case 1
      then have "f (xs ! j) \<le> f (xs ! k)" using le by blast
      with 1 kk show ?thesis by (simp add: nth_append)
    next
      case 2
      with False kk show ?thesis by simp
    qed
  qed
  moreover have "\<forall>j<k. f ((xs @ [c]) ! j) < f ((xs @ [c]) ! k)"
  proof (intro allI impI)
    fix j assume 1: "j < k"
    then have "f (xs ! j) < f (xs ! k)" using lt by blast
    moreover have "(xs @ [c]) ! j = xs ! j" using 1 k by (simp add: nth_append)
    ultimately show "f ((xs @ [c]) ! j) < f ((xs @ [c]) ! k)"
      using kk by simp
  qed
  moreover have "k < length (xs @ [c])" using k by simp
  ultimately show ?thesis
    using False kk by (intro exI[of _ k]) simp
qed

lemma max_element_from_first_max:
  "\<exists>k<length (l # cs). max_element_from l cs = (l # cs) ! k
      \<and> (\<forall>j<length (l # cs). score ((l # cs) ! j) \<le> score ((l # cs) ! k))
      \<and> (\<forall>j<k. score ((l # cs) ! j) < score ((l # cs) ! k))"
proof (induction cs rule: rev_induct)
  case Nil
  then show ?case by simp
next
  case (snoc c cs)
  then obtain k where k: "k < length (l # cs)" "max_element_from l cs = (l # cs) ! k"
    "\<forall>j<length (l # cs). score ((l # cs) ! j) \<le> score ((l # cs) ! k)"
    "\<forall>j<k. score ((l # cs) ! j) < score ((l # cs) ! k)"
    by blast
  have m: "max_element_from l (cs @ [c]) = (if score ((l # cs) ! k) < score c then c else (l # cs) ! k)"
    using k(2) by (simp add: max_element_from_snoc Candidate2D_less_def)
  have app: "l # cs @ [c] = (l # cs) @ [c]" by simp
  show ?case
    unfolding m app by (rule first_max_snoc[OF k(1) k(3) k(4)])
qed

lemma max_element_first_max:
  "max_element cs = Some b \<longleftrightarrow>
     (\<exists>k<length cs. b = cs ! k
        \<and> (\<forall>j<length cs. score (cs ! j) \<le> score (cs ! k))
        \<and> (\<forall>j<k. score (cs ! j) < score (cs ! k)))"
proof (cases cs)
  case Nil
  then show ?thesis by simp
next
  case (Cons l rest)
  obtain k where k: "k < length cs" "max_element_from l rest = cs ! k"
    "\<forall>j<length cs. score (cs ! j) \<le> score (cs ! k)"
    "\<forall>j<k. score (cs ! j) < score (cs ! k)"
    using max_element_from_first_max[of l rest] Cons by blast
  have m: "max_element cs = Some (cs ! k)" using k(2) Cons by simp
  show ?thesis
  proof
    assume "max_element cs = Some b"
    with m have "b = cs ! k" by simp
    with k show "\<exists>k<length cs. b = cs ! k
        \<and> (\<forall>j<length cs. score (cs ! j) \<le> score (cs ! k))
        \<and> (\<forall>j<k. score (cs ! j) < score (cs ! k))" by blast
  next
    assume "\<exists>k<length cs. b = cs ! k
        \<and> (\<forall>j<length cs. score (cs ! j) \<le> score (cs ! k))
        \<and> (\<forall>j<k. score (cs ! j) < score (cs ! k))"
    then obtain k' where k': "k' < length cs" "b = cs ! k'"
      "\<forall>j<length cs. score (cs ! j) \<le> score (cs ! k')"
      "\<forall>j<k'. score (cs ! j) < score (cs ! k')" by blast
    have "k' = k"
    proof (rule ccontr)
      assume "k' \<noteq> k"
      then consider "k' < k" | "k < k'" by linarith
      then show False
      proof cases
        case 1
        then have "score (cs ! k') < score (cs ! k)" using k(4) by blast
        moreover have "score (cs ! k) \<le> score (cs ! k')" using k'(3) k(1) by blast
        ultimately show False by simp
      next
        case 2
        then have "score (cs ! k) < score (cs ! k')" using k'(4) by blast
        moreover have "score (cs ! k') \<le> score (cs ! k)" using k(3) k'(1) by blast
        ultimately show False by simp
      qed
    qed
    with m k'(2) show "max_element cs = Some b" by simp
  qed
qed

subsection \<open>Scoring a list of candidates\<close>

lemma score_candidate_eq:
  "score_candidate options grid scans c =
     (case dispatch_score grid scans c of
        Inl e \<Rightarrow> Inl e
      | Inr raw \<Rightarrow> Inr (c\<lparr>score := float32 (raw * penalty options c)\<rparr>))"
  by (simp add: score_candidate_def penalty_def Let_def split: sum.splits)

lemma score_candidate_Inr_iff:
  "score_candidate options grid scans c = Inr c' \<longleftrightarrow>
     (\<exists>raw. dispatch_score grid scans c = Inr raw
        \<and> c' = c\<lparr>score := float32 (raw * penalty options c)\<rparr>)"
  by (auto simp: score_candidate_eq split: sum.splits)

lemma ScoreCandidates_Inr_iff:
  "ScoreCandidates options grid scans sp cs = Inr cs' \<longleftrightarrow>
     list_all2 (\<lambda>c c'. score_candidate options grid scans c = Inr c') cs cs'"
proof (induction cs arbitrary: cs')
  case Nil
  then show ?case by auto
next
  case (Cons c cs)
  show ?case
  proof (cases "score_candidate options grid scans c")
    case (Inl e)
    then show ?thesis by (auto simp: list_all2_Cons1)
  next
    case scored: (Inr d)
    show ?thesis
    proof (cases "ScoreCandidates options grid scans sp cs")
      case (Inl e)
      with scored Cons show ?thesis by (auto simp: list_all2_Cons1)
    next
      case (Inr rest)
      with scored Cons show ?thesis by (auto simp: list_all2_Cons1)
    qed
  qed
qed

lemma dispatch_score_failure:
  "dispatch_score grid scans c = Inl e \<Longrightarrow>
     e = index_out_of_range \<or> e = CHECK_GT_candidate_score \<or> e = CHECK_GE_candidate_score"
  by (auto simp: dispatch_score_def scan_at_def probability_score_eq tsdf_score_eq
           split: GridType.splits sum.splits if_splits)

lemma ScoreCandidates_failure:
  "ScoreCandidates options grid scans sp cs = Inl e \<Longrightarrow>
     e = index_out_of_range \<or> e = CHECK_GT_candidate_score \<or> e = CHECK_GE_candidate_score"
proof (induction cs)
  case Nil
  then show ?case by simp
next
  case (Cons c cs)
  then show ?case
    by (auto simp: score_candidate_eq split: sum.splits dest: dispatch_score_failure)
qed

lemma GenerateExhaustiveSearchCandidates_failure:
  "GenerateExhaustiveSearchCandidates sp = Inl e \<Longrightarrow>
     e = index_out_of_range \<or> e = length_error \<or> e = CHECK_EQ_num_candidates"
  by (cases "scans_in_range sp")
     (auto simp: GenerateExhaustiveSearchCandidates_in_range
        GenerateExhaustiveSearchCandidates_out_of_range split: if_splits)

lemma scored_candidates_failure:
  "scored_candidates ext options initial cloud grid = Inl e \<Longrightarrow>
     e \<noteq> CHECK_pose_estimate_not_null \<and> e \<noteq> dereference_of_end"
  by (auto simp: scored_candidates_def Let_def split: sum.splits
           dest: GenerateExhaustiveSearchCandidates_failure ScoreCandidates_failure)

subsection \<open>The penalty\<close>








subsection \<open>The loop with its effects\<close>

lemma penalty_score_update: "penalty options (c\<lparr>score := v\<rparr>) = penalty options c"
  by (simp add: penalty_def)

lemma dispatch_store_eq:
  "dispatch_store i s =
     (case dispatch_score (st_grid s) (st_discrete_scans s) (st_candidates s ! i) of
        Inl e \<Rightarrow> Inl e
      | Inr raw \<Rightarrow>
          Inr (if GetGridType (st_grid s) = UNHANDLED_GRID_TYPE then s else store_score i raw s))"
  by (simp add: dispatch_store_def dispatch_score_def Let_def split: GridType.splits sum.splits)

lemma score_step_eq:
  assumes "i < length (st_candidates s)"
  shows "score_step options i s =
     (case dispatch_score (st_grid s) (st_discrete_scans s) (st_candidates s ! i) of
        Inl e \<Rightarrow> Inl e
      | Inr raw \<Rightarrow>
          Inr (s\<lparr> st_candidates := (st_candidates s)
                     [i := final_candidate options (st_grid s) (st_discrete_scans s) (st_candidates s ! i)],
                 score_stores := score_stores s
                     @ stores_of options (st_grid s) (st_discrete_scans s) i (st_candidates s ! i) \<rparr>))"
proof (cases "dispatch_score (st_grid s) (st_discrete_scans s) (st_candidates s ! i)")
  case (Inl e)
  then show ?thesis
    by (simp add: score_step_def dispatch_store_eq)
next
  case (Inr raw)
  show ?thesis
  proof (cases "GetGridType (st_grid s) = UNHANDLED_GRID_TYPE")
    case True
    then have "raw = score (st_candidates s ! i)"
      using Inr by (simp add: dispatch_score_def)
    then show ?thesis
      using Inr True
      by (simp add: score_step_def dispatch_store_eq store_score_def final_candidate_def
            stores_of_def Let_def)
  next
    case False
    then show ?thesis
      using Inr assms
      by (simp add: score_step_def dispatch_store_eq store_score_def final_candidate_def
            stores_of_def Let_def penalty_score_update)
  qed
qed

lemma final_prefix_step:
  assumes "k < length cs"
  shows "(map f (take k cs) @ drop k cs)[k := f (cs ! k)] = map f (take (Suc k) cs) @ drop (Suc k) cs"
proof -
  have l: "length (map f (take k cs)) = k"
    using assms by simp
  have d: "drop k cs = cs ! k # drop (Suc k) cs"
    using assms by (simp add: Cons_nth_drop_Suc)
  have "(map f (take k cs) @ drop k cs)[k := f (cs ! k)]
          = map f (take k cs) @ (drop k cs)[0 := f (cs ! k)]"
    using l by (simp add: list_update_append)
  also have "\<dots> = map f (take k cs) @ f (cs ! k) # drop (Suc k) cs"
    by (subst d) simp
  also have "\<dots> = map f (take (Suc k) cs) @ drop (Suc k) cs"
    using assms by (simp add: take_Suc_conv_app_nth)
  finally show ?thesis .
qed

lemma all_from_Suc:
  assumes "k < n"
  shows "(\<forall>i. k \<le> i \<and> i < n \<longrightarrow> P i) \<longleftrightarrow> P k \<and> (\<forall>i. Suc k \<le> i \<and> i < n \<longrightarrow> P i)"
proof (intro iffI conjI allI impI)
  assume a: "\<forall>i. k \<le> i \<and> i < n \<longrightarrow> P i"
  show "P k" using a assms by simp
  fix i
  assume "Suc k \<le> i \<and> i < n"
  then have "k \<le> i \<and> i < n" by simp
  with a show "P i" by blast
next
  fix i
  assume b: "P k \<and> (\<forall>i. Suc k \<le> i \<and> i < n \<longrightarrow> P i)" and i: "k \<le> i \<and> i < n"
  show "P i"
  proof (cases "i = k")
    case True
    with b show ?thesis by simp
  next
    case False
    with i have "Suc k \<le> i \<and> i < n" by simp
    with b show ?thesis by blast
  qed
qed

lemma scored_all_one:
  assumes "dispatch_score g scans c = Inr raw"
  shows "\<forall>i<length [c]. \<exists>r. dispatch_score g scans ([c] ! i) = Inr r"
  using assms by simp

lemma scored_all_two:
  assumes "dispatch_score g scans c1 = Inr raw1" and "dispatch_score g scans c2 = Inr raw2"
  shows "\<forall>i<length [c1, c2]. \<exists>r. dispatch_score g scans ([c1, c2] ! i) = Inr r"
  using assms by (simp add: All_less_Suc2)

lemma score_loop_from:
  assumes "k \<le> length cs"
  shows "score_loop options [k..<length cs]
           \<lparr> st_grid = g, st_discrete_scans = scans, st_search_parameters = sp,
             st_candidates = map (final_candidate options g scans) (take k cs) @ drop k cs,
             score_stores = concat (map (\<lambda>i. stores_of options g scans i (cs ! i)) [0..<k]) \<rparr>
           = Inr s'
         \<longleftrightarrow> (\<forall>i. k \<le> i \<and> i < length cs \<longrightarrow> (\<exists>raw. dispatch_score g scans (cs ! i) = Inr raw))
              \<and> s' = \<lparr> st_grid = g, st_discrete_scans = scans, st_search_parameters = sp,
                       st_candidates = map (final_candidate options g scans) cs,
                       score_stores = concat (map (\<lambda>i. stores_of options g scans i (cs ! i))
                                                [0..<length cs]) \<rparr>"
  using assms
proof (induction "length cs - k" arbitrary: k)
  case 0
  then have "k = length cs" by simp
  then show ?case by auto
next
  case (Suc m)
  then have k: "k < length cs" and m: "m = length cs - Suc k" and le: "Suc k \<le> length cs"
    by simp_all
  have at_k: "(map (final_candidate options g scans) (take k cs) @ drop k cs) ! k = cs ! k"
    using k by (simp add: nth_append)
  have split_all: "(\<forall>i. k \<le> i \<and> i < length cs \<longrightarrow> (\<exists>raw. dispatch_score g scans (cs ! i) = Inr raw))
        \<longleftrightarrow> (\<exists>raw. dispatch_score g scans (cs ! k) = Inr raw)
            \<and> (\<forall>i. Suc k \<le> i \<and> i < length cs \<longrightarrow> (\<exists>raw. dispatch_score g scans (cs ! i) = Inr raw))"
    by (rule all_from_Suc[OF k])
  show ?case
  proof (cases "dispatch_score g scans (cs ! k)")
    case (Inl e)
    then show ?thesis
      using k by (subst split_all) (simp add: upt_conv_Cons score_step_eq at_k)
  next
    case (Inr raw)
    have "score_loop options [k..<length cs]
           \<lparr> st_grid = g, st_discrete_scans = scans, st_search_parameters = sp,
             st_candidates = map (final_candidate options g scans) (take k cs) @ drop k cs,
             score_stores = concat (map (\<lambda>i. stores_of options g scans i (cs ! i)) [0..<k]) \<rparr>
        = score_loop options [Suc k..<length cs]
           \<lparr> st_grid = g, st_discrete_scans = scans, st_search_parameters = sp,
             st_candidates = map (final_candidate options g scans) (take (Suc k) cs) @ drop (Suc k) cs,
             score_stores = concat (map (\<lambda>i. stores_of options g scans i (cs ! i)) [0..<Suc k]) \<rparr>"
    proof -
      have first: "[k..<length cs] = k # [Suc k..<length cs]"
        using k by (simp add: upt_conv_Cons)
      have step: "score_step options k
           \<lparr> st_grid = g, st_discrete_scans = scans, st_search_parameters = sp,
             st_candidates = map (final_candidate options g scans) (take k cs) @ drop k cs,
             score_stores = concat (map (\<lambda>i. stores_of options g scans i (cs ! i)) [0..<k]) \<rparr>
        = Inr \<lparr> st_grid = g, st_discrete_scans = scans, st_search_parameters = sp,
             st_candidates = map (final_candidate options g scans) (take (Suc k) cs) @ drop (Suc k) cs,
             score_stores = concat (map (\<lambda>i. stores_of options g scans i (cs ! i)) [0..<Suc k]) \<rparr>"
        using k Inr by (simp add: score_step_eq at_k final_prefix_step)
      show ?thesis
        by (subst first) (simp only: score_loop.simps step sum.case)
    qed
    then show ?thesis
      using Suc.hyps(1)[OF m le] Inr by (subst split_all) simp
  qed
qed

lemma ScoreCandidates_effects_iff:
  "ScoreCandidates_effects options g scans sp cs = Inr s' \<longleftrightarrow>
     (\<forall>i<length cs. \<exists>raw. dispatch_score g scans (cs ! i) = Inr raw)
     \<and> s' = \<lparr> st_grid = g, st_discrete_scans = scans, st_search_parameters = sp,
              st_candidates = map (final_candidate options g scans) cs,
              score_stores = concat (map (\<lambda>i. stores_of options g scans i (cs ! i))
                                       [0..<length cs]) \<rparr>"
  using score_loop_from[of 0 cs options g scans sp s']
  by (simp add: ScoreCandidates_effects_def)

lemma ScoreCandidates_final:
  "ScoreCandidates options g scans sp cs = Inr cs' \<longleftrightarrow>
     (\<forall>i<length cs. \<exists>raw. dispatch_score g scans (cs ! i) = Inr raw)
     \<and> cs' = map (final_candidate options g scans) cs"
proof
  assume "ScoreCandidates options g scans sp cs = Inr cs'"
  then have len: "length cs' = length cs"
    and each: "\<And>i. i < length cs \<Longrightarrow>
                 \<exists>raw. dispatch_score g scans (cs ! i) = Inr raw
                    \<and> cs' ! i = (cs ! i)\<lparr>score := float32 (raw * penalty options (cs ! i))\<rparr>"
    by (auto simp: ScoreCandidates_Inr_iff list_all2_conv_all_nth score_candidate_Inr_iff)
  have "cs' = map (final_candidate options g scans) cs"
  proof (rule nth_equalityI)
    show "length cs' = length (map (final_candidate options g scans) cs)"
      using len by simp
    fix i
    assume "i < length cs'"
    then have i: "i < length cs" using len by simp
    from each[OF i] show "cs' ! i = map (final_candidate options g scans) cs ! i"
      using i by (auto simp: final_candidate_def)
  qed
  with each show "(\<forall>i<length cs. \<exists>raw. dispatch_score g scans (cs ! i) = Inr raw)
     \<and> cs' = map (final_candidate options g scans) cs"
    by blast
next
  assume a: "(\<forall>i<length cs. \<exists>raw. dispatch_score g scans (cs ! i) = Inr raw)
     \<and> cs' = map (final_candidate options g scans) cs"
  then show "ScoreCandidates options g scans sp cs = Inr cs'"
    by (auto simp: ScoreCandidates_Inr_iff list_all2_conv_all_nth score_candidate_Inr_iff
          final_candidate_def)
qed

subsection \<open>The examples, evaluated\<close>

lemma near_fields:
  "scan_index near_candidate = 0" "x_index_offset near_candidate = 0" "y_index_offset near_candidate = 0"
  "x near_candidate = 0" "y near_candidate = 0" "orientation near_candidate = - (1 / 100)"
  "score near_candidate = 0"
  by (simp_all add: near_candidate_def Candidate2D_init_def example_parameters_def)

lemma far_fields:
  "scan_index far_candidate = 0" "x_index_offset far_candidate = 1" "y_index_offset far_candidate = 0"
  "x far_candidate = 1 / 20" "y far_candidate = 0" "orientation far_candidate = - (1 / 100)"
  "score far_candidate = 0"
  by (simp_all add: far_candidate_def Candidate2D_init_def example_parameters_def)

lemma uniform_dispatch:
  "dispatch_score (uniform_grid (1 / 2)) example_scans near_candidate = Inr (1 / 2)"
  "dispatch_score (uniform_grid (1 / 2)) example_scans far_candidate = Inr (1 / 2)"
  by (simp_all add: dispatch_score_def uniform_grid_def example_scans_def scan_at_def
        near_fields far_fields probability_score_eq float_sum_def float32_values)


lemma zero_weight_penalty: "penalty (example_options 0) c = 1"
  by (simp add: penalty_def Pow2_def example_options_def)

lemma example_candidates:
  "GenerateExhaustiveSearchCandidates example_parameters =
     Inr [Candidate2D_init 0 0 0 example_parameters, Candidate2D_init 0 1 0 example_parameters,
          Candidate2D_init 1 (- 1) 2 example_parameters, Candidate2D_init 1 (- 1) 3 example_parameters]"
  using GenerateExhaustiveSearchCandidates_returns[OF example_in_range example_ordered]
  by (simp add: exhaustive_candidates_def example_triples)

lemma peaked_dispatch:
  "dispatch_score peaked_grid example_scans (Candidate2D_init 0 0 0 example_parameters) = Inr (1 / 4)"
  "dispatch_score peaked_grid example_scans (Candidate2D_init 0 1 0 example_parameters) = Inr (3 / 4)"
  "dispatch_score peaked_grid example_scans (Candidate2D_init 1 (- 1) 2 example_parameters) = Inr (1 / 4)"
  "dispatch_score peaked_grid example_scans (Candidate2D_init 1 (- 1) 3 example_parameters) = Inr (3 / 4)"
  by (simp_all add: dispatch_score_def peaked_grid_def example_scans_def scan_at_def
        Candidate2D_init_def probability_score_eq float_sum_def float32_values)

lemma example_scored_candidates:
  "scored_candidates example_collaborators (example_options 0) example_pose () peaked_grid
     = Inr example_scored"
  by (simp add: scored_candidates_def example_collaborators_def example_candidates
        score_candidate_eq peaked_dispatch zero_weight_penalty example_scored_def float32_values)

lemma uniform_grid_type: "GetGridType (uniform_grid p) = PROBABILITY_GRID"
  by (simp add: uniform_grid_def)

lemma uniform_grid_probability: "GetProbability (uniform_grid p) cell = p"
  by (simp add: uniform_grid_def)

lemma rounding_tsdf_fields:
  "GetMaxCorrespondenceCost rounding_tsdf = 1"
  "GetTSDAndWeight rounding_tsdf cell = (838861 / 8388608, 1)"
  by (simp_all add: rounding_tsdf_def)


lemma rounding_dispatch:
  "ComputeCandidateScore_ProbabilityGrid (uniform_grid (7549747 / 8388608)) [(0, 0), (1, 0), (2, 0)] 0 0
     = Inr (15099493 / 16777216)"
  "ComputeCandidateScore_TSDF2D rounding_tsdf [(0, 0), (1, 0), (2, 0)] 0 0
     = Inr (15099493 / 16777216)"
  by (simp_all add: probability_score_eq tsdf_score_eq uniform_grid_def rounding_tsdf_def
        normalized_tsd_score_def float_sum_def float32_values float32_point_nine)



subsection \<open>The candidates of a call\<close>

lemma score_candidate_triple:
  "score_candidate options grid scans c = Inr c' \<Longrightarrow> triple_of c' = triple_of c"
  by (auto simp: score_candidate_Inr_iff triple_of_def)

lemma ScoreCandidates_triples:
  "ScoreCandidates options grid scans sp cs = Inr cs' \<Longrightarrow> map triple_of cs' = map triple_of cs"
  unfolding ScoreCandidates_Inr_iff
  by (induction cs cs' rule: list_all2_induct) (simp_all add: score_candidate_triple)

lemma exhaustive_candidates_triples:
  "map triple_of (exhaustive_candidates sp) = enumerated_triples sp"
  by (simp add: exhaustive_candidates_def triple_of_def Candidate2D_init_def comp_def
        case_prod_beta)

lemma scored_candidates_triples:
  assumes "scored_candidates ext options initial cloud grid = Inr cs"
  shows "map triple_of cs = enumerated_triples (search_parameters_of ext options initial cloud grid)"
proof -
  let ?sp = "search_parameters_of ext options initial cloud grid"
  from assms obtain cands scans where
    g: "GenerateExhaustiveSearchCandidates ?sp = Inr cands"
    and s: "ScoreCandidates options grid scans ?sp cands = Inr cs"
    by (auto simp: scored_candidates_def search_parameters_of_def Let_def split: sum.splits)
  from g have "cands = exhaustive_candidates ?sp"
    by (simp add: GenerateExhaustiveSearchCandidates_Inr)
  with ScoreCandidates_triples[OF s] show ?thesis
    by (simp add: exhaustive_candidates_triples)
qed

lemma Match_Inr_iff:
  "Match ext options initial cloud grid (Some p) = Inr (ret, pose) \<longleftrightarrow>
     (\<exists>cs k. scored_candidates ext options initial cloud grid = Inr cs \<and> k < length cs
        \<and> (\<forall>j<length cs. score (cs ! j) \<le> score (cs ! k))
        \<and> (\<forall>j<k. score (cs ! j) < score (cs ! k))
        \<and> ret = score (cs ! k)
        \<and> pose = \<lparr> translation = (fst (translation initial) + x (cs ! k),
                                    snd (translation initial) + y (cs ! k)),
                     rotation = compose (rotation initial) (Rotation2D (orientation (cs ! k))) \<rparr>)"
  (is "?L \<longleftrightarrow> ?R")
proof
  assume l: ?L
  then obtain cs where cs: "scored_candidates ext options initial cloud grid = Inr cs"
    by (auto simp: Match_def split: sum.splits)
  with l obtain b where b: "max_element cs = Some b"
    by (auto simp: Match_def split: option.splits)
  from l cs b have r: "ret = score b"
    "pose = \<lparr> translation = (fst (translation initial) + x b, snd (translation initial) + y b),
              rotation = compose (rotation initial) (Rotation2D (orientation b)) \<rparr>"
    by (simp_all add: Match_def)
  from b obtain k where "k < length cs" "b = cs ! k"
    "\<forall>j<length cs. score (cs ! j) \<le> score (cs ! k)" "\<forall>j<k. score (cs ! j) < score (cs ! k)"
    unfolding max_element_first_max by blast
  with cs r show ?R by blast
next
  assume ?R
  then obtain cs k where cs: "scored_candidates ext options initial cloud grid = Inr cs"
    and k: "k < length cs" "\<forall>j<length cs. score (cs ! j) \<le> score (cs ! k)"
      "\<forall>j<k. score (cs ! j) < score (cs ! k)"
    and r: "ret = score (cs ! k)"
      "pose = \<lparr> translation = (fst (translation initial) + x (cs ! k),
                                snd (translation initial) + y (cs ! k)),
                rotation = compose (rotation initial) (Rotation2D (orientation (cs ! k))) \<rparr>"
    by blast
  from k have "max_element cs = Some (cs ! k)"
    unfolding max_element_first_max by blast
  with cs r show ?L by (simp add: Match_def)
qed

section \<open>The claims\<close>

subsection \<open>C1\<close>

text \<open>
  C1. A call of \<^verbatim>\<open>Match\<close> with a pointer that is not null returns the score \<open>ret\<close> and
  writes the pose \<open>pose\<close> exactly when the scored candidates of the call have an index \<open>k\<close>
  such that no candidate scores more than the one at \<open>k\<close>, every candidate before \<open>k\<close>
  scores strictly less (the first of the maximal ones is taken), \<open>ret\<close> is the score of
  that candidate, the translation of \<open>pose\<close> is the initial translation plus its \<open>(x, y)\<close>,
  and the rotation of \<open>pose\<close> is the initial rotation composed with the rotation by its
  orientation. Read from right to left, the call returns whenever the candidates were
  scored and there is one at least. The scored candidates stand, in their order, for the
  triples enumerated from the search parameters of the call.
\<close>

theorem Match_selects_first_maximum:
  "(Match ext options initial cloud grid (Some p) = Inr (ret, pose) \<longleftrightarrow>
     (\<exists>cs k. scored_candidates ext options initial cloud grid = Inr cs \<and> k < length cs
        \<and> (\<forall>j<length cs. score (cs ! j) \<le> score (cs ! k))
        \<and> (\<forall>j<k. score (cs ! j) < score (cs ! k))
        \<and> ret = score (cs ! k)
        \<and> pose = \<lparr> translation = (fst (translation initial) + x (cs ! k),
                                    snd (translation initial) + y (cs ! k)),
                     rotation = compose (rotation initial) (Rotation2D (orientation (cs ! k))) \<rparr>))
   \<and> (\<forall>cs. scored_candidates ext options initial cloud grid = Inr cs \<longrightarrow>
         map (\<lambda>c. (scan_index c, x_index_offset c, y_index_offset c)) cs
           = enumerated_triples (search_parameters_of ext options initial cloud grid))"
proof (intro conjI allI impI)
  show "Match ext options initial cloud grid (Some p) = Inr (ret, pose) \<longleftrightarrow>
     (\<exists>cs k. scored_candidates ext options initial cloud grid = Inr cs \<and> k < length cs
        \<and> (\<forall>j<length cs. score (cs ! j) \<le> score (cs ! k))
        \<and> (\<forall>j<k. score (cs ! j) < score (cs ! k))
        \<and> ret = score (cs ! k)
        \<and> pose = \<lparr> translation = (fst (translation initial) + x (cs ! k),
                                    snd (translation initial) + y (cs ! k)),
                     rotation = compose (rotation initial) (Rotation2D (orientation (cs ! k))) \<rparr>)"
    by (rule Match_Inr_iff)
next
  fix cs
  assume "scored_candidates ext options initial cloud grid = Inr cs"
  then show "map (\<lambda>c. (scan_index c, x_index_offset c, y_index_offset c)) cs
           = enumerated_triples (search_parameters_of ext options initial cloud grid)"
    using scored_candidates_triples[of ext options initial cloud grid cs]
    by (simp add: triple_of_def[abs_def])
qed

text \<open>
  In the example the second and the fourth candidate score \<open>3/4\<close>, the others \<open>1/4\<close>:
  the second one is taken.
\<close>

theorem Match_selects_first_maximum_witness:
  "Match example_collaborators (example_options 0) example_pose () peaked_grid (Some example_pose)
     = Inr (3 / 4, \<lparr> translation = (21 / 20, 2), rotation = Rotation2D (49 / 100) \<rparr>)"
proof -
  have "\<exists>cs k. scored_candidates example_collaborators (example_options 0) example_pose () peaked_grid = Inr cs
        \<and> k < length cs
        \<and> (\<forall>j<length cs. score (cs ! j) \<le> score (cs ! k))
        \<and> (\<forall>j<k. score (cs ! j) < score (cs ! k))
        \<and> 3 / 4 = score (cs ! k)
        \<and> \<lparr> translation = (21 / 20, 2), rotation = Rotation2D (49 / 100) \<rparr>
            = \<lparr> translation = (fst (translation example_pose) + x (cs ! k),
                                snd (translation example_pose) + y (cs ! k)),
                rotation = compose (rotation example_pose) (Rotation2D (orientation (cs ! k))) \<rparr>"
    apply (rule exI[of _ example_scored])
    apply (rule exI[of _ 1])
    apply (simp add: example_scored_candidates)
    apply (simp add: example_scored_def All_less_Suc2
             Candidate2D_init_def example_parameters_def example_pose_def)
    done
  then show ?thesis
    using Match_selects_first_maximum[of example_collaborators "example_options 0" example_pose "()"
        peaked_grid example_pose "3 / 4"
        "\<lparr> translation = (21 / 20, 2), rotation = Rotation2D (49 / 100) \<rparr>"]
    by blast
qed

subsection \<open>C2\<close>

text \<open>
  C2, as amended. The probability grid scorer reads, for every point of the scan, the
  probability at the cell of the point shifted by the offset, adds these values up one by
  one in float, and divides the sum, in float, by the number of points converted to float.
  It returns the rounded quotient when the scan has a point and the quotient is strictly
  positive, and fails at \<^verbatim>\<open>CHECK_GT\<close> otherwise. The score is the arithmetic mean when
  nothing is rounded: when every partial sum, the number of points and the mean are floats.
  When every queried cell holds the same probability \<open>p\<close> in \<open>(0, 1)\<close>, the score is \<open>p\<close>
  if the multiples of \<open>p\<close> up to the number of points and that number are floats; for a
  scan of one point it is \<open>p\<close> for every float \<open>p\<close>.
\<close>

theorem probability_score_float_mean:
  "ComputeCandidateScore_ProbabilityGrid g scan dx dy =
     (if scan \<noteq> []
         \<and> 0 < float32 (float_sum (map (\<lambda>q. GetProbability g (fst q + dx, snd q + dy)) scan)
                        / float32 (real (length scan)))
      then Inr (float32 (float_sum (map (\<lambda>q. GetProbability g (fst q + dx, snd q + dy)) scan)
                         / float32 (real (length scan))))
      else Inl CHECK_GT_candidate_score)
   \<and> (sums_exact (map (\<lambda>q. GetProbability g (fst q + dx, snd q + dy)) scan)
        \<and> is_float32 (real (length scan))
        \<and> is_float32 (sum_list (map (\<lambda>q. GetProbability g (fst q + dx, snd q + dy)) scan)
                       / real (length scan)) \<longrightarrow>
      ComputeCandidateScore_ProbabilityGrid g scan dx dy =
        (if scan \<noteq> []
            \<and> 0 < sum_list (map (\<lambda>q. GetProbability g (fst q + dx, snd q + dy)) scan) / real (length scan)
         then Inr (sum_list (map (\<lambda>q. GetProbability g (fst q + dx, snd q + dy)) scan) / real (length scan))
         else Inl CHECK_GT_candidate_score))
   \<and> (scan \<noteq> [] \<and> 0 < p \<and> p < 1
        \<and> (\<forall>q\<in>set scan. GetProbability g (fst q + dx, snd q + dy) = p)
        \<and> (\<forall>k\<le>length scan. is_float32 (real k * p))
        \<and> is_float32 (real (length scan)) \<longrightarrow>
      ComputeCandidateScore_ProbabilityGrid g scan dx dy = Inr p)
   \<and> (is_float32 p \<and> 0 < p \<and> p < 1 \<and> GetProbability g (fst q1 + dx, snd q1 + dy) = p \<longrightarrow>
      ComputeCandidateScore_ProbabilityGrid g [q1] dx dy = Inr p)"
proof (intro conjI impI)
  show "ComputeCandidateScore_ProbabilityGrid g scan dx dy =
     (if scan \<noteq> []
         \<and> 0 < float32 (float_sum (map (\<lambda>q. GetProbability g (fst q + dx, snd q + dy)) scan)
                        / float32 (real (length scan)))
      then Inr (float32 (float_sum (map (\<lambda>q. GetProbability g (fst q + dx, snd q + dy)) scan)
                         / float32 (real (length scan))))
      else Inl CHECK_GT_candidate_score)"
    by (rule probability_score_eq)
next
  assume "sums_exact (map (\<lambda>q. GetProbability g (fst q + dx, snd q + dy)) scan)
        \<and> is_float32 (real (length scan))
        \<and> is_float32 (sum_list (map (\<lambda>q. GetProbability g (fst q + dx, snd q + dy)) scan)
                       / real (length scan))"
  then show "ComputeCandidateScore_ProbabilityGrid g scan dx dy =
        (if scan \<noteq> []
            \<and> 0 < sum_list (map (\<lambda>q. GetProbability g (fst q + dx, snd q + dy)) scan) / real (length scan)
         then Inr (sum_list (map (\<lambda>q. GetProbability g (fst q + dx, snd q + dy)) scan) / real (length scan))
         else Inl CHECK_GT_candidate_score)"
    by (intro probability_score_exact) simp_all
next
  assume "scan \<noteq> [] \<and> 0 < p \<and> p < 1
        \<and> (\<forall>q\<in>set scan. GetProbability g (fst q + dx, snd q + dy) = p)
        \<and> (\<forall>k\<le>length scan. is_float32 (real k * p))
        \<and> is_float32 (real (length scan))"
  then show "ComputeCandidateScore_ProbabilityGrid g scan dx dy = Inr p"
    by (intro probability_score_uniform) simp_all
next
  assume "is_float32 p \<and> 0 < p \<and> p < 1 \<and> GetProbability g (fst q1 + dx, snd q1 + dy) = p"
  then show "ComputeCandidateScore_ProbabilityGrid g [q1] dx dy = Inr p"
    by (intro probability_score_single) simp_all
qed

text \<open>
  A scan of two points on the uniform grid of probability \<open>1/2\<close>: the multiples \<open>0\<close>,
  \<open>1/2\<close> and \<open>1\<close> and the number \<open>2\<close> are floats, and the score is \<open>1/2\<close>.
\<close>

theorem probability_score_float_mean_witness:
  "ComputeCandidateScore_ProbabilityGrid (uniform_grid (1 / 2)) [(0, 0), (1, 2)] 1 (- 1)
     = Inr (1 / 2)"
proof -
  have multiples: "is_float32 (real k * (1 / 2))" if "k \<le> 2" for k
  proof -
    from that have "k = 0 \<or> k = 1 \<or> k = 2" by arith
    then show ?thesis
      by (auto simp: is_float32_def float32_values)
  qed
  have "[(0, 0), (1, 2)] \<noteq> ([] :: DiscreteScan2D) \<and> (0::real) < 1 / 2 \<and> (1::real) / 2 < 1
        \<and> (\<forall>q\<in>set [(0, 0), (1, 2)].
              GetProbability (uniform_grid (1 / 2)) (fst q + 1, snd q + (- 1)) = 1 / 2)
        \<and> (\<forall>k\<le>length [(0::int, 0::int), (1, 2)]. is_float32 (real k * (1 / 2)))
        \<and> is_float32 (real (length [(0::int, 0::int), (1, 2)]))"
    using multiples by (simp add: uniform_grid_def is_float32_def float32_values)
  then show ?thesis
    using probability_score_float_mean[of "uniform_grid (1 / 2)" "[(0, 0), (1, 2)]" 1 "- 1" "1 / 2"]
    by blast
qed

text \<open>
  The claim as it stands does not hold of the float arithmetic of the source. On the
  uniform grid of probability \<open>7549747 / 8388608\<close>, the float nearest to \<open>0.9\<close>, a scan of
  three points has the float sum \<open>2831155 / 1048576\<close> (the sum of three is rounded) and the
  score \<open>15099493 / 16777216\<close>, the float below \<open>p\<close>: neither the mean nor \<open>p\<close>.
\<close>

theorem probability_score_rounding_counterexample:
  "is_float32 (7549747 / 8388608)
   \<and> ComputeCandidateScore_ProbabilityGrid (uniform_grid (7549747 / 8388608))
        [(0, 0), (1, 0), (2, 0)] 0 0 = Inr (15099493 / 16777216)
   \<and> sum_list (map (\<lambda>q. GetProbability (uniform_grid (7549747 / 8388608)) (fst q + 0, snd q + 0))
                 [(0, 0), (1, 0), (2, 0)]) / real (length [(0::int, 0::int), (1, 0), (2, 0)])
       = 7549747 / 8388608
   \<and> (15099493::real) / 16777216 \<noteq> 7549747 / 8388608"
  by (simp add: rounding_dispatch is_float32_def float32_point_nine uniform_grid_probability)

subsection \<open>C3\<close>

text \<open>
  C3, as amended. For a TSDF whose maximum correspondence cost is not zero, the scorer adds
  up, in float, the weights of the queried cells and the products of the value of a point,
  the float quotient of the float \<open>cost - |distance|\<close> by the cost, with its weight. It
  returns \<open>0\<close> when the float sum of the weights is zero (the quotient by the sum is not
  taken), and otherwise the float quotient of the two sums, which it returns when it passes
  \<^verbatim>\<open>CHECK_GE\<close>. The score is the average of \<open>(cost - |distance|) / cost\<close> weighted by the
  weights when nothing is rounded: when the differences, the values, the products, every
  partial sum and the average are floats. A distance whose magnitude is the cost has the
  value \<open>0\<close>; the distance \<open>0\<close> has the value \<open>1\<close> when the cost is a float.
\<close>

theorem tsdf_score_float_weighted_average:
  assumes "GetMaxCorrespondenceCost g \<noteq> 0"
  shows "ComputeCandidateScore_TSDF2D g scan dx dy =
     (if float_sum (map (\<lambda>q. snd (GetTSDAndWeight g (fst q + dx, snd q + dy))) scan) = 0 then Inr 0
      else if 0 \<le> float32
                     (float_sum (map (\<lambda>q. float32 (normalized_tsd_score g (fst (GetTSDAndWeight g (fst q + dx, snd q + dy)))
                                                    * snd (GetTSDAndWeight g (fst q + dx, snd q + dy)))) scan)
                      / float_sum (map (\<lambda>q. snd (GetTSDAndWeight g (fst q + dx, snd q + dy))) scan))
           then Inr (float32
                     (float_sum (map (\<lambda>q. float32 (normalized_tsd_score g (fst (GetTSDAndWeight g (fst q + dx, snd q + dy)))
                                                    * snd (GetTSDAndWeight g (fst q + dx, snd q + dy)))) scan)
                      / float_sum (map (\<lambda>q. snd (GetTSDAndWeight g (fst q + dx, snd q + dy))) scan)))
           else Inl CHECK_GE_candidate_score)
   \<and> ((\<forall>q\<in>set scan.
          is_float32 (GetMaxCorrespondenceCost g - \<bar>fst (GetTSDAndWeight g (fst q + dx, snd q + dy))\<bar>)
          \<and> is_float32 ((GetMaxCorrespondenceCost g - \<bar>fst (GetTSDAndWeight g (fst q + dx, snd q + dy))\<bar>)
                        / GetMaxCorrespondenceCost g)
          \<and> is_float32 ((GetMaxCorrespondenceCost g - \<bar>fst (GetTSDAndWeight g (fst q + dx, snd q + dy))\<bar>)
                        / GetMaxCorrespondenceCost g
                        * snd (GetTSDAndWeight g (fst q + dx, snd q + dy))))
       \<and> sums_exact (map (\<lambda>q. (GetMaxCorrespondenceCost g - \<bar>fst (GetTSDAndWeight g (fst q + dx, snd q + dy))\<bar>)
                               / GetMaxCorrespondenceCost g
                               * snd (GetTSDAndWeight g (fst q + dx, snd q + dy))) scan)
       \<and> sums_exact (map (\<lambda>q. snd (GetTSDAndWeight g (fst q + dx, snd q + dy))) scan)
       \<and> is_float32 (sum_list (map (\<lambda>q. (GetMaxCorrespondenceCost g - \<bar>fst (GetTSDAndWeight g (fst q + dx, snd q + dy))\<bar>)
                                          / GetMaxCorrespondenceCost g
                                          * snd (GetTSDAndWeight g (fst q + dx, snd q + dy))) scan)
                      / sum_list (map (\<lambda>q. snd (GetTSDAndWeight g (fst q + dx, snd q + dy))) scan)) \<longrightarrow>
      ComputeCandidateScore_TSDF2D g scan dx dy =
        (if sum_list (map (\<lambda>q. snd (GetTSDAndWeight g (fst q + dx, snd q + dy))) scan) = 0 then Inr 0
         else if 0 \<le> sum_list (map (\<lambda>q. (GetMaxCorrespondenceCost g - \<bar>fst (GetTSDAndWeight g (fst q + dx, snd q + dy))\<bar>)
                                          / GetMaxCorrespondenceCost g
                                          * snd (GetTSDAndWeight g (fst q + dx, snd q + dy))) scan)
                       / sum_list (map (\<lambda>q. snd (GetTSDAndWeight g (fst q + dx, snd q + dy))) scan)
              then Inr (sum_list (map (\<lambda>q. (GetMaxCorrespondenceCost g - \<bar>fst (GetTSDAndWeight g (fst q + dx, snd q + dy))\<bar>)
                                            / GetMaxCorrespondenceCost g
                                            * snd (GetTSDAndWeight g (fst q + dx, snd q + dy))) scan)
                        / sum_list (map (\<lambda>q. snd (GetTSDAndWeight g (fst q + dx, snd q + dy))) scan))
              else Inl CHECK_GE_candidate_score))
   \<and> (\<bar>tsd\<bar> = GetMaxCorrespondenceCost g \<longrightarrow> normalized_tsd_score g tsd = 0)
   \<and> (is_float32 (GetMaxCorrespondenceCost g) \<longrightarrow> normalized_tsd_score g 0 = 1)"
proof (intro conjI impI)
  show "ComputeCandidateScore_TSDF2D g scan dx dy =
     (if float_sum (map (\<lambda>q. snd (GetTSDAndWeight g (fst q + dx, snd q + dy))) scan) = 0 then Inr 0
      else if 0 \<le> float32
                     (float_sum (map (\<lambda>q. float32 (normalized_tsd_score g (fst (GetTSDAndWeight g (fst q + dx, snd q + dy)))
                                                    * snd (GetTSDAndWeight g (fst q + dx, snd q + dy)))) scan)
                      / float_sum (map (\<lambda>q. snd (GetTSDAndWeight g (fst q + dx, snd q + dy))) scan))
           then Inr (float32
                     (float_sum (map (\<lambda>q. float32 (normalized_tsd_score g (fst (GetTSDAndWeight g (fst q + dx, snd q + dy)))
                                                    * snd (GetTSDAndWeight g (fst q + dx, snd q + dy)))) scan)
                      / float_sum (map (\<lambda>q. snd (GetTSDAndWeight g (fst q + dx, snd q + dy))) scan)))
           else Inl CHECK_GE_candidate_score)"
    by (rule tsdf_score_eq)
next
  assume "(\<forall>q\<in>set scan.
          is_float32 (GetMaxCorrespondenceCost g - \<bar>fst (GetTSDAndWeight g (fst q + dx, snd q + dy))\<bar>)
          \<and> is_float32 ((GetMaxCorrespondenceCost g - \<bar>fst (GetTSDAndWeight g (fst q + dx, snd q + dy))\<bar>)
                        / GetMaxCorrespondenceCost g)
          \<and> is_float32 ((GetMaxCorrespondenceCost g - \<bar>fst (GetTSDAndWeight g (fst q + dx, snd q + dy))\<bar>)
                        / GetMaxCorrespondenceCost g
                        * snd (GetTSDAndWeight g (fst q + dx, snd q + dy))))
       \<and> sums_exact (map (\<lambda>q. (GetMaxCorrespondenceCost g - \<bar>fst (GetTSDAndWeight g (fst q + dx, snd q + dy))\<bar>)
                               / GetMaxCorrespondenceCost g
                               * snd (GetTSDAndWeight g (fst q + dx, snd q + dy))) scan)
       \<and> sums_exact (map (\<lambda>q. snd (GetTSDAndWeight g (fst q + dx, snd q + dy))) scan)
       \<and> is_float32 (sum_list (map (\<lambda>q. (GetMaxCorrespondenceCost g - \<bar>fst (GetTSDAndWeight g (fst q + dx, snd q + dy))\<bar>)
                                          / GetMaxCorrespondenceCost g
                                          * snd (GetTSDAndWeight g (fst q + dx, snd q + dy))) scan)
                      / sum_list (map (\<lambda>q. snd (GetTSDAndWeight g (fst q + dx, snd q + dy))) scan))"
  then show "ComputeCandidateScore_TSDF2D g scan dx dy =
        (if sum_list (map (\<lambda>q. snd (GetTSDAndWeight g (fst q + dx, snd q + dy))) scan) = 0 then Inr 0
         else if 0 \<le> sum_list (map (\<lambda>q. (GetMaxCorrespondenceCost g - \<bar>fst (GetTSDAndWeight g (fst q + dx, snd q + dy))\<bar>)
                                          / GetMaxCorrespondenceCost g
                                          * snd (GetTSDAndWeight g (fst q + dx, snd q + dy))) scan)
                       / sum_list (map (\<lambda>q. snd (GetTSDAndWeight g (fst q + dx, snd q + dy))) scan)
              then Inr (sum_list (map (\<lambda>q. (GetMaxCorrespondenceCost g - \<bar>fst (GetTSDAndWeight g (fst q + dx, snd q + dy))\<bar>)
                                            / GetMaxCorrespondenceCost g
                                            * snd (GetTSDAndWeight g (fst q + dx, snd q + dy))) scan)
                        / sum_list (map (\<lambda>q. snd (GetTSDAndWeight g (fst q + dx, snd q + dy))) scan))
              else Inl CHECK_GE_candidate_score)"
    by (intro tsdf_score_exact) blast+
next
  assume "\<bar>tsd\<bar> = GetMaxCorrespondenceCost g"
  then show "normalized_tsd_score g tsd = 0"
    by (rule normalized_tsd_score_at_cost)
next
  assume "is_float32 (GetMaxCorrespondenceCost g)"
  with assms show "normalized_tsd_score g 0 = 1"
    by (rule normalized_tsd_score_at_zero)
qed

text \<open>
  A scan of two points on a TSDF of cost \<open>1\<close>, distance \<open>-1/2\<close> and weight \<open>2\<close>
  everywhere: every value is \<open>1/2\<close>, the sums are \<open>2\<close> and \<open>4\<close>, and the score is \<open>1/2\<close>.
\<close>

theorem tsdf_score_float_weighted_average_witness:
  "ComputeCandidateScore_TSDF2D example_tsdf [(0, 0), (1, 1)] 0 0 = Inr (1 / 2)
   \<and> normalized_tsd_score example_tsdf (- 1) = 0
   \<and> normalized_tsd_score example_tsdf 0 = 1"
proof -
  have m: "GetMaxCorrespondenceCost example_tsdf \<noteq> 0"
    by (simp add: example_tsdf_def)
  have v: "normalized_tsd_score example_tsdf (- (1 / 2)) = 1 / 2"
    by (simp add: normalized_tsd_score_def example_tsdf_def float32_values)
  have c: "\<bar>- 1 :: real\<bar> = GetMaxCorrespondenceCost example_tsdf"
    "is_float32 (GetMaxCorrespondenceCost example_tsdf)"
    by (simp_all add: example_tsdf_def is_float32_def float32_values)
  have "ComputeCandidateScore_TSDF2D example_tsdf [(0, 0), (1, 1)] 0 0 = Inr (1 / 2)"
    using tsdf_score_float_weighted_average[OF m, of "[(0, 0), (1, 1)]" 0 0 "- 1"]
    by (simp add: example_tsdf_def v[unfolded example_tsdf_def] float_sum_def float32_values)
  moreover have "normalized_tsd_score example_tsdf (- 1) = 0 \<and> normalized_tsd_score example_tsdf 0 = 1"
    using tsdf_score_float_weighted_average[OF m, of "[(0, 0), (1, 1)]" 0 0 "- 1"] c
    by blast
  ultimately show ?thesis by simp
qed

text \<open>
  The claim as it stands does not hold of the float arithmetic of the source. On a TSDF of
  cost \<open>1\<close> whose cells all have the weight \<open>1\<close> and the distance \<open>838861 / 8388608\<close>, a
  float, every point has the value \<open>7549747 / 8388608\<close>, the float nearest to \<open>0.9\<close>. The
  weighted average over a scan of three points is that value, and the score is
  \<open>15099493 / 16777216\<close>, the float below it.
\<close>

theorem tsdf_score_rounding_counterexample:
  "GetMaxCorrespondenceCost rounding_tsdf \<noteq> 0
   \<and> is_float32 (fst (GetTSDAndWeight rounding_tsdf (0, 0)))
   \<and> is_float32 (snd (GetTSDAndWeight rounding_tsdf (0, 0)))
   \<and> is_float32 (GetMaxCorrespondenceCost rounding_tsdf)
   \<and> ComputeCandidateScore_TSDF2D rounding_tsdf [(0, 0), (1, 0), (2, 0)] 0 0
       = Inr (15099493 / 16777216)
   \<and> sum_list (map (\<lambda>q. (GetMaxCorrespondenceCost rounding_tsdf
                           - \<bar>fst (GetTSDAndWeight rounding_tsdf (fst q + 0, snd q + 0))\<bar>)
                          / GetMaxCorrespondenceCost rounding_tsdf
                          * snd (GetTSDAndWeight rounding_tsdf (fst q + 0, snd q + 0)))
                 [(0, 0), (1, 0), (2, 0)])
       / sum_list (map (\<lambda>q. snd (GetTSDAndWeight rounding_tsdf (fst q + 0, snd q + 0)))
                    [(0, 0), (1, 0), (2, 0)])
       = 7549747 / 8388608
   \<and> (15099493::real) / 16777216 \<noteq> 7549747 / 8388608"
  by (simp add: rounding_dispatch rounding_tsdf_fields is_float32_def float32_point_nine
        float32_values)

subsection \<open>C4\<close>




subsection \<open>C5\<close>

text \<open>
  C5. Whenever \<^verbatim>\<open>GenerateExhaustiveSearchCandidates\<close> returns, the number of candidates is the
  sum over the rotation indices of \<open>(max_x - min_x + 1) * (max_y - min_y + 1)\<close>. It returns
  for search parameters whose scan indices are in range and whose ranges are ordered. With
  scan indices in range, a number of enumerated candidates other than the precomputed total
  is the failure of \<^verbatim>\<open>CHECK_EQ\<close>; a negative total fails before the enumeration, in
  \<^verbatim>\<open>reserve\<close>.
\<close>

theorem candidate_count:
  "(\<forall>cs. GenerateExhaustiveSearchCandidates sp = Inr cs \<longrightarrow>
      int (length cs) =
        (\<Sum>s\<leftarrow>[0..num_scans sp - 1].
           (max_x (linear_bounds sp ! nat s) - min_x (linear_bounds sp ! nat s) + 1)
           * (max_y (linear_bounds sp ! nat s) - min_y (linear_bounds sp ! nat s) + 1)))
   \<and> (scans_in_range sp \<and> bounds_ordered sp \<longrightarrow>
        GenerateExhaustiveSearchCandidates sp = Inr (exhaustive_candidates sp))
   \<and> (scans_in_range sp \<and> 0 \<le> num_candidates_of sp
        \<and> int (length (exhaustive_candidates sp)) \<noteq> num_candidates_of sp \<longrightarrow>
        GenerateExhaustiveSearchCandidates sp = Inl CHECK_EQ_num_candidates)
   \<and> (scans_in_range sp \<and> num_candidates_of sp < 0 \<longrightarrow>
        GenerateExhaustiveSearchCandidates sp = Inl length_error)"
proof (intro conjI allI impI)
  fix cs
  assume "GenerateExhaustiveSearchCandidates sp = Inr cs"
  then have "int (length cs) = num_candidates_of sp"
    by (simp add: GenerateExhaustiveSearchCandidates_Inr)
  then show "int (length cs) =
        (\<Sum>s\<leftarrow>[0..num_scans sp - 1].
           (max_x (linear_bounds sp ! nat s) - min_x (linear_bounds sp ! nat s) + 1)
           * (max_y (linear_bounds sp ! nat s) - min_y (linear_bounds sp ! nat s) + 1))"
    by (simp add: num_candidates_of_def count_at_def Let_def)
next
  assume "scans_in_range sp \<and> bounds_ordered sp"
  then show "GenerateExhaustiveSearchCandidates sp = Inr (exhaustive_candidates sp)"
    by (simp add: GenerateExhaustiveSearchCandidates_returns)
next
  assume "scans_in_range sp \<and> 0 \<le> num_candidates_of sp
        \<and> int (length (exhaustive_candidates sp)) \<noteq> num_candidates_of sp"
  then show "GenerateExhaustiveSearchCandidates sp = Inl CHECK_EQ_num_candidates"
    by (simp add: GenerateExhaustiveSearchCandidates_in_range)
next
  assume "scans_in_range sp \<and> num_candidates_of sp < 0"
  then show "GenerateExhaustiveSearchCandidates sp = Inl length_error"
    by (simp add: GenerateExhaustiveSearchCandidates_in_range)
qed

text \<open>
  The example has four candidates; in the second example the total is \<open>1\<close> and no
  candidate is enumerated.
\<close>

theorem candidate_count_witness:
  "(\<exists>cs. GenerateExhaustiveSearchCandidates example_parameters = Inr cs \<and> length cs = 4)
   \<and> GenerateExhaustiveSearchCandidates mismatch_parameters = Inl CHECK_EQ_num_candidates"
proof
  have "GenerateExhaustiveSearchCandidates example_parameters = Inr (exhaustive_candidates example_parameters)"
    using candidate_count[of example_parameters] example_in_range example_ordered by simp
  moreover have "length (exhaustive_candidates example_parameters) = 4"
    by (simp add: exhaustive_candidates_def example_triples)
  ultimately show "\<exists>cs. GenerateExhaustiveSearchCandidates example_parameters = Inr cs \<and> length cs = 4"
    by simp
next
  have "int (length (exhaustive_candidates mismatch_parameters)) \<noteq> num_candidates_of mismatch_parameters"
    by (simp add: exhaustive_candidates_def mismatch_triples mismatch_count)
  then show "GenerateExhaustiveSearchCandidates mismatch_parameters = Inl CHECK_EQ_num_candidates"
    using candidate_count[of mismatch_parameters] mismatch_in_range mismatch_count by simp
qed

subsection \<open>C6\<close>

text \<open>
  C6. Whenever \<^verbatim>\<open>GenerateExhaustiveSearchCandidates\<close> returns, the result is one candidate
  for each triple of the enumeration, in its order, with \<open>x\<close> and \<open>y\<close> the offsets times
  the resolution and the orientation the rotation of the scan index; it returns for search
  parameters whose scan indices are in range and whose ranges are ordered. The enumeration
  holds exactly the triples within the bounds, and it is strictly increasing in the order
  of nested loops: scan index outermost, x offset in the middle, y offset innermost.
\<close>

theorem enumeration_order:
  "(\<forall>cs. GenerateExhaustiveSearchCandidates sp = Inr cs \<longrightarrow>
      cs = map (\<lambda>(s, xo, yo).
                 \<lparr> scan_index = s, x_index_offset = xo, y_index_offset = yo,
                   x = real_of_int xo * resolution sp,
                   y = real_of_int yo * resolution sp,
                   orientation = real_of_int (s - center_index sp) * angular_step sp,
                   score = 0 \<rparr>)
             (enumerated_triples sp))
   \<and> (scans_in_range sp \<and> bounds_ordered sp \<longrightarrow>
        (\<exists>cs. GenerateExhaustiveSearchCandidates sp = Inr cs))
   \<and> set (enumerated_triples sp) =
        {(s, xo, yo). 0 \<le> s \<and> s < num_scans sp
           \<and> min_x (linear_bounds sp ! nat s) \<le> xo \<and> xo \<le> max_x (linear_bounds sp ! nat s)
           \<and> min_y (linear_bounds sp ! nat s) \<le> yo \<and> yo \<le> max_y (linear_bounds sp ! nat s)}
   \<and> sorted_wrt nested_before (enumerated_triples sp)"
proof (intro conjI allI impI)
  fix cs
  assume "GenerateExhaustiveSearchCandidates sp = Inr cs"
  then have "cs = exhaustive_candidates sp"
    by (simp add: GenerateExhaustiveSearchCandidates_Inr)
  then show "cs = map (\<lambda>(s, xo, yo).
                 \<lparr> scan_index = s, x_index_offset = xo, y_index_offset = yo,
                   x = real_of_int xo * resolution sp,
                   y = real_of_int yo * resolution sp,
                   orientation = real_of_int (s - center_index sp) * angular_step sp,
                   score = 0 \<rparr>)
             (enumerated_triples sp)"
    by (simp add: exhaustive_candidates_def Candidate2D_init_def)
next
  assume "scans_in_range sp \<and> bounds_ordered sp"
  then show "\<exists>cs. GenerateExhaustiveSearchCandidates sp = Inr cs"
    by (simp add: GenerateExhaustiveSearchCandidates_returns)
next
  show "set (enumerated_triples sp) =
        {(s, xo, yo). 0 \<le> s \<and> s < num_scans sp
           \<and> min_x (linear_bounds sp ! nat s) \<le> xo \<and> xo \<le> max_x (linear_bounds sp ! nat s)
           \<and> min_y (linear_bounds sp ! nat s) \<le> yo \<and> yo \<le> max_y (linear_bounds sp ! nat s)}"
    by (rule set_enumerated_triples)
next
  show "sorted_wrt nested_before (enumerated_triples sp)"
    by (rule sorted_enumerated_triples)
qed

text \<open>
  The four candidates of the example, in their order.
\<close>

theorem enumeration_order_witness:
  "GenerateExhaustiveSearchCandidates example_parameters =
     Inr [\<lparr> scan_index = 0, x_index_offset = 0, y_index_offset = 0,
            x = 0, y = 0, orientation = - (1 / 100), score = 0 \<rparr>,
          \<lparr> scan_index = 0, x_index_offset = 1, y_index_offset = 0,
            x = 1 / 20, y = 0, orientation = - (1 / 100), score = 0 \<rparr>,
          \<lparr> scan_index = 1, x_index_offset = -1, y_index_offset = 2,
            x = - (1 / 20), y = 1 / 10, orientation = 0, score = 0 \<rparr>,
          \<lparr> scan_index = 1, x_index_offset = -1, y_index_offset = 3,
            x = - (1 / 20), y = 3 / 20, orientation = 0, score = 0 \<rparr>]"
proof -
  obtain cs where cs: "GenerateExhaustiveSearchCandidates example_parameters = Inr cs"
    using enumeration_order[of example_parameters] example_in_range example_ordered by blast
  then have "cs = map (\<lambda>(s, xo, yo).
                 \<lparr> scan_index = s, x_index_offset = xo, y_index_offset = yo,
                   x = real_of_int xo * resolution example_parameters,
                   y = real_of_int yo * resolution example_parameters,
                   orientation = real_of_int (s - center_index example_parameters)
                                 * angular_step example_parameters,
                   score = 0 \<rparr>)
             (enumerated_triples example_parameters)"
    using enumeration_order[of example_parameters] by blast
  then show ?thesis
    unfolding cs by (simp add: example_triples) (simp add: example_parameters_def)
qed

subsection \<open>C7\<close>

text \<open>
  C7, as amended. With a grid whose tag is neither \<open>PROBABILITY_GRID\<close> nor \<open>TSDF\<close> the
  switch takes no branch and nothing fails: \<^verbatim>\<open>ScoreCandidates\<close> returns, and every
  candidate has the float nearest to the score it came with, multiplied by the penalty.
\<close>

theorem unhandled_grid_type_scores:
  assumes "GetGridType grid = UNHANDLED_GRID_TYPE"
  shows "ScoreCandidates options grid scans sp cs =
           Inr (map (\<lambda>c. c\<lparr>score := float32 (score c * penalty options c)\<rparr>) cs)"
  using assms
  by (simp add: ScoreCandidates_Inr_iff list_all2_conv_all_nth score_candidate_Inr_iff
        dispatch_score_def)

text \<open>
  A candidate of score \<open>1/4\<close> keeps it when both weights are zero.
\<close>

theorem unhandled_grid_type_scores_witness:
  "ScoreCandidates (example_options 0) unhandled_grid example_scans example_parameters
     [near_candidate\<lparr>score := 1 / 4\<rparr>]
   = Inr [near_candidate\<lparr>score := 1 / 4\<rparr>]"
proof -
  have t: "GetGridType unhandled_grid = UNHANDLED_GRID_TYPE"
    by (simp add: unhandled_grid_def)
  show ?thesis
    using unhandled_grid_type_scores[OF t, of "example_options 0" example_scans example_parameters
        "[near_candidate\<lparr>score := 1 / 4\<rparr>]"]
    by (simp add: zero_weight_penalty float32_values)
qed

text \<open>
  With a grid of another tag, two candidates are scored without a failure.
\<close>

theorem unhandled_grid_type_counterexample:
  "ScoreCandidates (example_options 1) unhandled_grid example_scans example_parameters
     [near_candidate, far_candidate]
   = Inr [near_candidate, far_candidate]"
  by (simp add: score_candidate_eq dispatch_score_def unhandled_grid_def near_fields far_fields)

subsection \<open>C8\<close>

text \<open>
  C8. With a null \<open>pose_estimate\<close>, \<^verbatim>\<open>Match\<close> fails at its first check, whatever the other
  arguments and the collaborators are; with a pointer that is not null, no result of
  \<^verbatim>\<open>Match\<close> is the failure of that check.
\<close>

theorem Match_null_check:
  "Match ext options initial cloud grid None = Inl CHECK_pose_estimate_not_null
   \<and> Match ext options initial cloud grid (Some p) \<noteq> Inl CHECK_pose_estimate_not_null"
  by (auto simp: Match_def split: sum.splits option.splits dest: scored_candidates_failure)

subsection \<open>C9\<close>

text \<open>
  C9, as amended. \<^verbatim>\<open>ScoreCandidates\<close> returns exactly when the switch gives every
  candidate of the input a score: there is no early end and no pruning. In the state it
  returns in, the grid, the discrete scans and the search parameters are the ones it was
  called with, and every candidate is the input candidate with the score field set to the
  float nearest to the score of the switch times the penalty, all other fields unchanged.
  The score field of a candidate is not stored to once: for a probability grid and for a
  TSDF it is stored to twice, first the score of the switch, then the final score; for
  another tag it is stored to once. The stores come candidate by candidate, in the order of
  the list. The candidates of the returned state are the list the function returns.
\<close>

theorem ScoreCandidates_effects_frame:
  "(ScoreCandidates_effects options grid scans sp cs = Inr s' \<longleftrightarrow>
      (\<forall>i<length cs. \<exists>raw. dispatch_score grid scans (cs ! i) = Inr raw)
      \<and> st_grid s' = grid \<and> st_discrete_scans s' = scans \<and> st_search_parameters s' = sp
      \<and> st_candidates s' = map (final_candidate options grid scans) cs
      \<and> score_stores s'
          = concat (map (\<lambda>i. stores_of options grid scans i (cs ! i)) [0..<length cs]))
   \<and> (\<forall>c raw i. dispatch_score grid scans c = Inr raw \<longrightarrow>
        final_candidate options grid scans c = c\<lparr>score := float32 (raw * penalty options c)\<rparr>
        \<and> stores_of options grid scans i c
            = (if GetGridType grid = UNHANDLED_GRID_TYPE
               then [(i, float32 (raw * penalty options c))]
               else [(i, raw), (i, float32 (raw * penalty options c))]))
   \<and> (ScoreCandidates options grid scans sp cs = Inr cs' \<longleftrightarrow>
        (\<exists>s. ScoreCandidates_effects options grid scans sp cs = Inr s \<and> st_candidates s = cs'))"
proof (intro conjI allI impI)
  show "ScoreCandidates_effects options grid scans sp cs = Inr s' \<longleftrightarrow>
      (\<forall>i<length cs. \<exists>raw. dispatch_score grid scans (cs ! i) = Inr raw)
      \<and> st_grid s' = grid \<and> st_discrete_scans s' = scans \<and> st_search_parameters s' = sp
      \<and> st_candidates s' = map (final_candidate options grid scans) cs
      \<and> score_stores s'
          = concat (map (\<lambda>i. stores_of options grid scans i (cs ! i)) [0..<length cs])"
    unfolding ScoreCandidates_effects_iff by (cases s') auto
next
  fix c raw i
  assume "dispatch_score grid scans c = Inr raw"
  then show "final_candidate options grid scans c = c\<lparr>score := float32 (raw * penalty options c)\<rparr>"
    and "stores_of options grid scans i c
            = (if GetGridType grid = UNHANDLED_GRID_TYPE
               then [(i, float32 (raw * penalty options c))]
               else [(i, raw), (i, float32 (raw * penalty options c))])"
    by (simp_all add: final_candidate_def stores_of_def)
next
  show "ScoreCandidates options grid scans sp cs = Inr cs' \<longleftrightarrow>
        (\<exists>s. ScoreCandidates_effects options grid scans sp cs = Inr s \<and> st_candidates s = cs')"
    unfolding ScoreCandidates_effects_iff ScoreCandidates_final by auto
qed

text \<open>
  Two candidates on the uniform grid of probability \<open>1/2\<close>, with both weights zero: the
  call returns, with the score \<open>1/2\<close> in both candidates.
\<close>

theorem ScoreCandidates_effects_frame_witness:
  "ScoreCandidates (example_options 0) (uniform_grid (1 / 2)) example_scans example_parameters
     [near_candidate, far_candidate]
   = Inr [near_candidate\<lparr>score := 1 / 2\<rparr>, far_candidate\<lparr>score := 1 / 2\<rparr>]"
proof -
  let ?s = "\<lparr> st_grid = uniform_grid (1 / 2), st_discrete_scans = example_scans,
              st_search_parameters = example_parameters,
              st_candidates = map (final_candidate (example_options 0) (uniform_grid (1 / 2)) example_scans)
                                [near_candidate, far_candidate],
              score_stores = concat (map (\<lambda>i. stores_of (example_options 0) (uniform_grid (1 / 2))
                                                example_scans i ([near_candidate, far_candidate] ! i))
                                      [0..<length [near_candidate, far_candidate]]) \<rparr>"
  have all: "\<forall>i<length [near_candidate, far_candidate].
          \<exists>raw. dispatch_score (uniform_grid (1 / 2)) example_scans ([near_candidate, far_candidate] ! i) = Inr raw"
    by (rule scored_all_two[OF uniform_dispatch])
  have sel: "st_grid ?s = uniform_grid (1 / 2) \<and> st_discrete_scans ?s = example_scans
        \<and> st_search_parameters ?s = example_parameters
        \<and> st_candidates ?s = map (final_candidate (example_options 0) (uniform_grid (1 / 2)) example_scans)
                                 [near_candidate, far_candidate]
        \<and> score_stores ?s = concat (map (\<lambda>i. stores_of (example_options 0) (uniform_grid (1 / 2))
                                                example_scans i ([near_candidate, far_candidate] ! i))
                                      [0..<length [near_candidate, far_candidate]])"
    by simp
  have fin: "map (final_candidate (example_options 0) (uniform_grid (1 / 2)) example_scans)
               [near_candidate, far_candidate]
             = [near_candidate\<lparr>score := 1 / 2\<rparr>, far_candidate\<lparr>score := 1 / 2\<rparr>]"
    by (simp add: final_candidate_def uniform_dispatch zero_weight_penalty float32_values)
  note frame = ScoreCandidates_effects_frame[of "example_options 0" "uniform_grid (1 / 2)" example_scans
        example_parameters "[near_candidate, far_candidate]" ?s
        "[near_candidate\<lparr>score := 1 / 2\<rparr>, far_candidate\<lparr>score := 1 / 2\<rparr>]"]
  have run: "ScoreCandidates_effects (example_options 0) (uniform_grid (1 / 2)) example_scans
               example_parameters [near_candidate, far_candidate] = Inr ?s"
    using all sel frame by blast
  have "\<exists>s. ScoreCandidates_effects (example_options 0) (uniform_grid (1 / 2)) example_scans
               example_parameters [near_candidate, far_candidate] = Inr s
             \<and> st_candidates s = [near_candidate\<lparr>score := 1 / 2\<rparr>, far_candidate\<lparr>score := 1 / 2\<rparr>]"
    using run fin by (intro exI[of _ ?s]) simp
  then show ?thesis
    using frame by blast
qed

text \<open>
  The score field is not written once. On the uniform grid of probability \<open>1/2\<close>, with both
  weights zero, the call with one candidate stores to its score field twice: the score of
  the switch, then the product with the penalty.
\<close>

theorem score_stored_twice_counterexample:
  "ScoreCandidates_effects (example_options 0) (uniform_grid (1 / 2)) example_scans example_parameters
     [near_candidate]
   = Inr \<lparr> st_grid = uniform_grid (1 / 2), st_discrete_scans = example_scans,
           st_search_parameters = example_parameters,
           st_candidates = [near_candidate\<lparr>score := 1 / 2\<rparr>],
           score_stores = [(0, 1 / 2), (0, 1 / 2)] \<rparr>"
  unfolding ScoreCandidates_effects_iff
proof (intro conjI)
  show "\<forall>i<length [near_candidate].
          \<exists>raw. dispatch_score (uniform_grid (1 / 2)) example_scans ([near_candidate] ! i) = Inr raw"
    by (rule scored_all_one[OF uniform_dispatch(1)])
  show "\<lparr> st_grid = uniform_grid (1 / 2), st_discrete_scans = example_scans,
           st_search_parameters = example_parameters,
           st_candidates = [near_candidate\<lparr>score := 1 / 2\<rparr>],
           score_stores = [(0, 1 / 2), (0, 1 / 2)] \<rparr>
        = \<lparr> st_grid = uniform_grid (1 / 2), st_discrete_scans = example_scans,
             st_search_parameters = example_parameters,
             st_candidates = map (final_candidate (example_options 0) (uniform_grid (1 / 2)) example_scans)
                               [near_candidate],
             score_stores = concat (map (\<lambda>i. stores_of (example_options 0) (uniform_grid (1 / 2))
                                               example_scans i ([near_candidate] ! i))
                                     [0..<length [near_candidate]]) \<rparr>"
    by (simp add: final_candidate_def stores_of_def uniform_dispatch zero_weight_penalty
          float32_values uniform_grid_type)
qed

subsection \<open>C10\<close>

text \<open>
  C10. For an empty scan the probability grid scorer fails at \<^verbatim>\<open>CHECK_GT\<close> (the quotient
  of \<^verbatim>\<open>0.f\<close> by the size \<open>0\<close> is NaN), so it returns a score only for a scan with a
  point; the TSDF scorer returns \<open>0\<close> for the empty scan.
\<close>

theorem empty_scan_unguarded:
  "ComputeCandidateScore_ProbabilityGrid grid [] dx dy = Inl CHECK_GT_candidate_score
   \<and> ComputeCandidateScore_TSDF2D grid [] dx dy = Inr 0"
  by (simp add: ComputeCandidateScore_ProbabilityGrid_def ComputeCandidateScore_TSDF2D_def)

end
